theory Spec2Isabelle
  imports Main
begin

section \<open>JavaScript values\<close>

text \<open>
  The program is dynamically typed: envelopes, contacts, normalized messages and the
  client itself are plain objects whose fields are probed one by one. They are modelled
  by one datatype of values. An object is the list of its own enumerable properties in
  enumeration order (keys distinct); numbers are the integers and \<open>NaN\<close>; a
  \<open>Date\<close> is its time value in milliseconds (\<open>None\<close> for an invalid date); a
  function is a name with the values it captured; a promise is recorded with the value
  it settles to and the properties assigned to the promise object itself.
  Inherited members (methods, \<open>name\<close> and \<open>length\<close> of functions) are not
  properties of the model; the program reads none of them on these values.
\<close>

datatype jsval =
    JUndefined
  | JNull
  | JBool bool
  | JNum int
  | JNaN
  | JStr string
  | JDate "int option"
  | JFun string "jsval list"
  | JPromise jsval "(string \<times> jsval) list"
  | JRejected jsval
  | JArr "jsval list"
  | JObj "(string \<times> jsval) list"

text \<open>A computation either throws a value (\<open>Inl\<close>) or returns one (\<open>Inr\<close>).\<close>

type_synonym 'a res = "jsval + 'a"

definition andThen :: "'a res \<Rightarrow> ('a \<Rightarrow> 'b res) \<Rightarrow> 'b res" where
  "andThen m f = (case m of Inl e \<Rightarrow> Inl e | Inr v \<Rightarrow> f v)"

definition TypeError :: "string \<Rightarrow> jsval" where
  "TypeError msg = JObj [(''name'', JStr ''TypeError''), (''message'', JStr msg)]"

fun truthy :: "jsval \<Rightarrow> bool" where
  "truthy JUndefined = False"
| "truthy JNull = False"
| "truthy (JBool b) = b"
| "truthy (JNum n) = (n \<noteq> 0)"
| "truthy JNaN = False"
| "truthy (JStr s) = (s \<noteq> [])"
| "truthy _ = True"

fun nullish :: "jsval \<Rightarrow> bool" where
  "nullish JUndefined = True"
| "nullish JNull = True"
| "nullish _ = False"

text \<open>\<open>a || b\<close> on values that are already computed.\<close>

definition js_or :: "jsval \<Rightarrow> jsval \<Rightarrow> jsval" where
  "js_or a b = (if truthy a then a else b)"

fun primitive :: "jsval \<Rightarrow> bool" where
  "primitive JUndefined = True"
| "primitive JNull = True"
| "primitive (JBool b) = True"
| "primitive (JNum n) = True"
| "primitive JNaN = True"
| "primitive (JStr s) = True"
| "primitive _ = False"

text \<open>
  \<open>a === b\<close>. Primitives compare by value and \<open>NaN\<close> equals nothing. Objects compare by
  reference; wherever the program uses \<open>===\<close> the two operands come from different
  places (a literal, a freshly parsed file, an argument), so two objects are never the
  same reference there.
\<close>

definition strict_eq :: "jsval \<Rightarrow> jsval \<Rightarrow> bool" where
  "strict_eq a b = (primitive a \<and> a \<noteq> JNaN \<and> a = b)"

subsection \<open>Property access\<close>

fun digit_char :: "nat \<Rightarrow> char" where
  "digit_char n = (''0123456789'' ! (n mod 10))"

fun dec_string :: "nat \<Rightarrow> string" where
  "dec_string n = (if n < 10 then [digit_char n] else dec_string (n div 10) @ [digit_char n])"

declare dec_string.simps [simp del]

text \<open>The value of a decimal digit: its place in \<open>0123456789\<close>.\<close>

fun place_in :: "char \<Rightarrow> string \<Rightarrow> nat \<Rightarrow> nat option" where
  "place_in c [] n = None"
| "place_in c (d # ds) n = (if c = d then Some n else place_in c ds (Suc n))"

definition digit_val :: "char \<Rightarrow> nat option" where
  "digit_val c = place_in c ''0123456789'' 0"

fun dec_value :: "nat \<Rightarrow> string \<Rightarrow> nat option" where
  "dec_value acc [] = Some acc"
| "dec_value acc (c # cs) =
     (case digit_val c of None \<Rightarrow> None | Some d \<Rightarrow> dec_value (10 * acc + d) cs)"

text \<open>An array index is a canonical decimal numeral: \<open>''0''\<close>, \<open>''17''\<close>, not \<open>''017''\<close>.\<close>

definition index_of_key :: "string \<Rightarrow> nat option" where
  "index_of_key k =
     (if k = [] then None
      else if hd k = CHR ''0'' \<and> tl k \<noteq> [] then None
      else dec_value 0 k)"

definition indexed :: "'a list \<Rightarrow> string \<Rightarrow> 'a option" where
  "indexed xs k =
     (case index_of_key k of
        None \<Rightarrow> None
      | Some i \<Rightarrow> (if i < length xs then Some (xs ! i) else None))"

text \<open>Reading property \<open>k\<close> of a value that is neither \<open>undefined\<close> nor \<open>null\<close>.\<close>

fun lookup :: "jsval \<Rightarrow> string \<Rightarrow> jsval" where
  "lookup (JObj kvs) k = (case map_of kvs k of Some v \<Rightarrow> v | None \<Rightarrow> JUndefined)"
| "lookup (JPromise v ps) k = (case map_of ps k of Some w \<Rightarrow> w | None \<Rightarrow> JUndefined)"
| "lookup (JArr xs) k =
     (if k = ''length'' then JNum (int (length xs))
      else case indexed xs k of Some v \<Rightarrow> v | None \<Rightarrow> JUndefined)"
| "lookup (JStr s) k =
     (if k = ''length'' then JNum (int (length s))
      else case indexed s k of Some c \<Rightarrow> JStr [c] | None \<Rightarrow> JUndefined)"
| "lookup _ k = JUndefined"

fun type_name :: "jsval \<Rightarrow> string" where
  "type_name JNull = ''null''"
| "type_name _ = ''undefined''"

text \<open>\<open>v.k\<close>: a \<open>TypeError\<close> when \<open>v\<close> is \<open>undefined\<close> or \<open>null\<close>.\<close>

definition get :: "jsval \<Rightarrow> string \<Rightarrow> jsval res" where
  "get v k =
     (if nullish v
      then Inl (TypeError (''Cannot read properties of '' @ type_name v @ '' (reading '' @ k @ '')''))
      else Inr (lookup v k))"

text \<open>\<open>v?.k\<close>: \<open>undefined\<close> when \<open>v\<close> is \<open>undefined\<close> or \<open>null\<close>; it never throws.\<close>

definition optget :: "jsval \<Rightarrow> string \<Rightarrow> jsval" where
  "optget v k = (if nullish v then JUndefined else lookup v k)"

text \<open>\<open>v?.k1?.k2 ...\<close>\<close>

fun optpath :: "jsval \<Rightarrow> string list \<Rightarrow> jsval" where
  "optpath v [] = v"
| "optpath v (k # ks) = optpath (optget v k) ks"

text \<open>\<open>Object.keys(v)\<close> and \<open>Object.values(v)\<close>.\<close>

fun Object_keys :: "jsval \<Rightarrow> string list res" where
  "Object_keys JUndefined = Inl (TypeError ''Cannot convert undefined or null to object'')"
| "Object_keys JNull = Inl (TypeError ''Cannot convert undefined or null to object'')"
| "Object_keys (JObj kvs) = Inr (map fst kvs)"
| "Object_keys (JPromise v ps) = Inr (map fst ps)"
| "Object_keys (JArr xs) = Inr (map dec_string [0..<length xs])"
| "Object_keys (JStr s) = Inr (map dec_string [0..<length s])"
| "Object_keys _ = Inr []"

fun Object_values :: "jsval \<Rightarrow> jsval list res" where
  "Object_values JUndefined = Inl (TypeError ''Cannot convert undefined or null to object'')"
| "Object_values JNull = Inl (TypeError ''Cannot convert undefined or null to object'')"
| "Object_values (JObj kvs) = Inr (map snd kvs)"
| "Object_values (JPromise v ps) = Inr (map snd ps)"
| "Object_values (JArr xs) = Inr xs"
| "Object_values (JStr s) = Inr (map (\<lambda>c. JStr [c]) s)"
| "Object_values _ = Inr []"

text \<open>Assignment \<open>o.k = v\<close> on an object: an existing property keeps its place.\<close>

fun assign :: "(string \<times> jsval) list \<Rightarrow> string \<Rightarrow> jsval \<Rightarrow> (string \<times> jsval) list" where
  "assign [] k v = [(k, v)]"
| "assign ((k', w) # kvs) k v = (if k' = k then (k, v) # kvs else (k', w) # assign kvs k v)"

subsection \<open>Array methods\<close>

text \<open>
  \<open>xs.find(p)\<close>: the first element on which the callback returns a truthy value,
  \<open>undefined\<close> when there is none; the callback may throw.
\<close>

fun find_first :: "(jsval \<Rightarrow> bool res) \<Rightarrow> jsval list \<Rightarrow> jsval res" where
  "find_first p [] = Inr JUndefined"
| "find_first p (x # xs) =
     (case p x of Inl e \<Rightarrow> Inl e | Inr b \<Rightarrow> if b then Inr x else find_first p xs)"

definition array_find :: "string \<Rightarrow> (jsval \<Rightarrow> bool res) \<Rightarrow> jsval \<Rightarrow> jsval res" where
  "array_find nm p v =
     (case v of
        JArr xs \<Rightarrow> find_first p xs
      | JUndefined \<Rightarrow> get v ''find''
      | JNull \<Rightarrow> get v ''find''
      | _ \<Rightarrow> Inl (TypeError (nm @ ''.find is not a function'')))"

fun filter_res :: "(jsval \<Rightarrow> bool res) \<Rightarrow> jsval list \<Rightarrow> jsval list res" where
  "filter_res p [] = Inr []"
| "filter_res p (x # xs) =
     (case p x of
        Inl e \<Rightarrow> Inl e
      | Inr b \<Rightarrow> (case filter_res p xs of
                   Inl e \<Rightarrow> Inl e
                 | Inr ys \<Rightarrow> Inr (if b then x # ys else ys)))"

definition array_filter :: "string \<Rightarrow> (jsval \<Rightarrow> bool res) \<Rightarrow> jsval \<Rightarrow> jsval res" where
  "array_filter nm p v =
     (case v of
        JArr xs \<Rightarrow> (case filter_res p xs of Inl e \<Rightarrow> Inl e | Inr ys \<Rightarrow> Inr (JArr ys))
      | JUndefined \<Rightarrow> get v ''filter''
      | JNull \<Rightarrow> get v ''filter''
      | _ \<Rightarrow> Inl (TypeError (nm @ ''.filter is not a function'')))"

subsection \<open>Numbers and dates\<close>

text \<open>
  What the runtime and the libraries compute and the model leaves open: the numeric value
  of a string or of an object (\<open>Number(v)\<close>), the time value of a date built from a
  string or an object (\<open>new Date(v).getTime()\<close>), the string a value that is not a
  string converts to, \<open>Buffer.from(v)\<close>, the upper-case hexadecimal rendering
  \<open>Buffer.from(v).toString('hex').toUpperCase()\<close>, and the upper-case hexadecimal
  SHA-256 digest of the UTF-8 encoding of \<open>Buffer.from(v).toString()\<close>. The first three
  are total; the \<open>Buffer\<close> functions throw a \<open>TypeError\<close> on values they do not accept.
\<close>

record runtime =
  ToNumber_of :: "jsval \<Rightarrow> jsval"
  Date_parse :: "jsval \<Rightarrow> jsval"
  ToString_of :: "jsval \<Rightarrow> string"
  Buffer_from :: "jsval \<Rightarrow> jsval res"
  hex_upper :: "jsval \<Rightarrow> jsval res"
  sha256_hex_upper :: "jsval \<Rightarrow> jsval res"

definition Number :: "runtime \<Rightarrow> jsval \<Rightarrow> jsval" where
  "Number rt v =
     (case v of
        JUndefined \<Rightarrow> JNaN
      | JNull \<Rightarrow> JNum 0
      | JBool b \<Rightarrow> JNum (if b then 1 else 0)
      | JNum n \<Rightarrow> JNum n
      | JNaN \<Rightarrow> JNaN
      | JDate t \<Rightarrow> (case t of None \<Rightarrow> JNaN | Some ms \<Rightarrow> JNum ms)
      | _ \<Rightarrow> ToNumber_of rt v)"

definition js_times :: "jsval \<Rightarrow> int \<Rightarrow> jsval" where
  "js_times v k = (case v of JNum n \<Rightarrow> JNum (n * k) | _ \<Rightarrow> JNaN)"

definition TimeClip :: "int \<Rightarrow> int option" where
  "TimeClip n = (if \<bar>n\<bar> \<le> 8640000000000000 then Some n else None)"

text \<open>\<open>new Date(v)\<close> and \<open>new Date(v).getTime()\<close>.\<close>

definition time_value :: "runtime \<Rightarrow> jsval \<Rightarrow> int option" where
  "time_value rt v =
     (case v of
        JDate t \<Rightarrow> t
      | JUndefined \<Rightarrow> None
      | JNull \<Rightarrow> Some 0
      | JBool b \<Rightarrow> Some (if b then 1 else 0)
      | JNum n \<Rightarrow> TimeClip n
      | JNaN \<Rightarrow> None
      | _ \<Rightarrow> (case Date_parse rt v of JNum n \<Rightarrow> TimeClip n | _ \<Rightarrow> None))"

definition new_Date :: "runtime \<Rightarrow> jsval \<Rightarrow> jsval" where
  "new_Date rt v = JDate (time_value rt v)"

text \<open>\<open>a <= b\<close> on two time values: false as soon as one is \<open>NaN\<close>.\<close>

definition time_le :: "int option \<Rightarrow> int option \<Rightarrow> bool" where
  "time_le a b = (case (a, b) of (Some x, Some y) \<Rightarrow> x \<le> y | _ \<Rightarrow> False)"

text \<open>\<open>Date.prototype.toISOString\<close>, from the days since 1970-01-01.\<close>

fun zeros :: "nat \<Rightarrow> string" where
  "zeros 0 = []"
| "zeros (Suc n) = CHR ''0'' # zeros n"

definition pad :: "nat \<Rightarrow> nat \<Rightarrow> string" where
  "pad w n = zeros (w - length (dec_string n)) @ dec_string n"

text \<open>
  The civil date of a day number (days since 1970-01-01), by eras of 400 years that
  start on 1 March: day of era, year of era, day of year, month counted from March.
\<close>

definition day_of_era :: "int \<Rightarrow> int" where
  "day_of_era days = (days + 719468) - ((days + 719468) div 146097) * 146097"

definition year_of_era :: "int \<Rightarrow> int" where
  "year_of_era doe = (doe - doe div 1460 + doe div 36524 - doe div 146096) div 365"

definition day_of_year :: "int \<Rightarrow> int" where
  "day_of_year doe =
     doe - (365 * year_of_era doe + year_of_era doe div 4 - year_of_era doe div 100)"

definition march_month :: "int \<Rightarrow> int" where
  "march_month doy = (5 * doy + 2) div 153"

definition civil_month :: "int \<Rightarrow> int" where
  "civil_month days =
     (if march_month (day_of_year (day_of_era days)) < 10
      then march_month (day_of_year (day_of_era days)) + 3
      else march_month (day_of_year (day_of_era days)) - 9)"

definition civil_day :: "int \<Rightarrow> int" where
  "civil_day days =
     day_of_year (day_of_era days)
       - (153 * march_month (day_of_year (day_of_era days)) + 2) div 5 + 1"

definition civil_year :: "int \<Rightarrow> int" where
  "civil_year days =
     year_of_era (day_of_era days) + ((days + 719468) div 146097) * 400
       + (if civil_month days \<le> 2 then 1 else 0)"

definition year_string :: "int \<Rightarrow> string" where
  "year_string y =
     (if 0 \<le> y \<and> y \<le> 9999 then pad 4 (nat y)
      else (if y < 0 then ''-'' else ''+'') @ pad 6 (nat \<bar>y\<bar>))"

definition time_string :: "nat \<Rightarrow> string" where
  "time_string r =
     pad 2 (r div 3600000) @ '':'' @ pad 2 (r div 60000 mod 60) @ '':''
       @ pad 2 (r div 1000 mod 60) @ ''.'' @ pad 3 (r mod 1000)"

definition toISOString :: "int \<Rightarrow> string" where
  "toISOString ms =
     year_string (civil_year (ms div 86400000)) @ ''-''
       @ pad 2 (nat (civil_month (ms div 86400000))) @ ''-''
       @ pad 2 (nat (civil_day (ms div 86400000))) @ ''T''
       @ time_string (nat (ms mod 86400000)) @ ''Z''"

section \<open>JSON\<close>

text \<open>
  \<open>JSON_value v\<close> is the value that \<open>JSON.parse(JSON.stringify(v))\<close> yields for a value
  \<open>v\<close> held in an array or an object, \<open>None\<close> when \<open>JSON.stringify\<close> leaves it out:
  \<open>undefined\<close> and functions are dropped from objects and become \<open>null\<close> in arrays,
  \<open>NaN\<close> becomes \<open>null\<close>, a \<open>Date\<close> becomes its ISO string (\<open>toJSON\<close>), a promise
  an object of its own properties.
\<close>

fun JSON_value :: "jsval \<Rightarrow> jsval option"
  and JSON_elems :: "jsval list \<Rightarrow> jsval list"
  and JSON_props :: "(string \<times> jsval) list \<Rightarrow> (string \<times> jsval) list" where
  "JSON_value JUndefined = None"
| "JSON_value JNull = Some JNull"
| "JSON_value (JBool b) = Some (JBool b)"
| "JSON_value (JNum n) = Some (JNum n)"
| "JSON_value JNaN = Some JNull"
| "JSON_value (JStr s) = Some (JStr s)"
| "JSON_value (JDate t) = Some (case t of None \<Rightarrow> JNull | Some ms \<Rightarrow> JStr (toISOString ms))"
| "JSON_value (JFun f cs) = None"
| "JSON_value (JPromise v ps) = Some (JObj (JSON_props ps))"
| "JSON_value (JRejected e) = Some (JObj [])"
| "JSON_value (JArr xs) = Some (JArr (JSON_elems xs))"
| "JSON_value (JObj kvs) = Some (JObj (JSON_props kvs))"
| "JSON_elems [] = []"
| "JSON_elems (x # xs) = (case JSON_value x of None \<Rightarrow> JNull | Some v \<Rightarrow> v) # JSON_elems xs"
| "JSON_props [] = []"
| "JSON_props (kv # kvs) =
     (case JSON_value (snd kv) of
        None \<Rightarrow> JSON_props kvs
      | Some w \<Rightarrow> (fst kv, w) # JSON_props kvs)"

text \<open>The values a JSON text denotes.\<close>

fun is_json :: "jsval \<Rightarrow> bool"
  and are_json :: "jsval list \<Rightarrow> bool"
  and props_json :: "(string \<times> jsval) list \<Rightarrow> bool" where
  "is_json JNull = True"
| "is_json (JBool b) = True"
| "is_json (JNum n) = True"
| "is_json (JStr s) = True"
| "is_json (JArr xs) = are_json xs"
| "is_json (JObj kvs) = props_json kvs"
| "is_json JUndefined = False"
| "is_json JNaN = False"
| "is_json (JDate t) = False"
| "is_json (JFun f cs) = False"
| "is_json (JPromise v ps) = False"
| "is_json (JRejected e) = False"
| "are_json [] = True"
| "are_json (x # xs) = (is_json x \<and> are_json xs)"
| "props_json [] = True"
| "props_json (kv # kvs) = (is_json (snd kv) \<and> props_json kvs)"

section \<open>MessageStore (utils/message-store.js)\<close>

text \<open>
  The store keeps one file per chat. A file that exists is unreadable
  (\<open>readFileSync\<close> throws), or holds text that is not JSON (\<open>JSON.parse\<close> throws), or
  holds a JSON text, recorded by the value it denotes. Chat ids are strings without path
  separators, so \<open>path.join\<close> only concatenates. Writing a file succeeds.
\<close>

datatype chat_file = Unreadable | InvalidJson | JsonDoc jsval

type_synonym filesystem = "string \<Rightarrow> chat_file option"

definition MessageStore :: "string \<Rightarrow> string" where
  "MessageStore basePath = basePath @ ''/message_store''"

definition getFilePath :: "string \<Rightarrow> string \<Rightarrow> string" where
  "getFilePath basePath chatId = basePath @ ''/'' @ chatId @ ''.json''"

definition loadMessages :: "filesystem \<Rightarrow> string \<Rightarrow> string \<Rightarrow> jsval" where
  "loadMessages fs basePath chatId =
     (case fs (getFilePath basePath chatId) of
        None \<Rightarrow> JArr []
      | Some Unreadable \<Rightarrow> JArr []
      | Some InvalidJson \<Rightarrow> JArr []
      | Some (JsonDoc v) \<Rightarrow> js_or v (JArr []))"

text \<open>\<open>JSON.stringify\<close> of a value that is left out yields no text, and the write throws.\<close>

definition saveMessages :: "filesystem \<Rightarrow> string \<Rightarrow> string \<Rightarrow> jsval \<Rightarrow> filesystem res" where
  "saveMessages fs basePath chatId messages =
     (case JSON_value messages of
        None \<Rightarrow> Inl (TypeError ''The \"data\" argument must be of type string'')
      | Some doc \<Rightarrow> Inr (fs(getFilePath basePath chatId \<mapsto> JsonDoc doc)))"

definition array_push :: "string \<Rightarrow> jsval \<Rightarrow> jsval \<Rightarrow> jsval res" where
  "array_push nm v x =
     (case v of
        JArr xs \<Rightarrow> Inr (JArr (xs @ [x]))
      | JUndefined \<Rightarrow> get v ''push''
      | JNull \<Rightarrow> get v ''push''
      | _ \<Rightarrow> Inl (TypeError (nm @ ''.push is not a function'')))"

text \<open>The callback \<open>m => m.id === id\<close>.\<close>

definition has_id :: "jsval \<Rightarrow> jsval \<Rightarrow> bool res" where
  "has_id i m = andThen (get m ''id'') (\<lambda>j. Inr (strict_eq j i))"

definition saveMessage :: "filesystem \<Rightarrow> string \<Rightarrow> string \<Rightarrow> jsval \<Rightarrow> filesystem res" where
  "saveMessage fs basePath chatId message =
     (let messages = loadMessages fs basePath chatId
      in andThen (array_find ''messages''
                    (\<lambda>m. andThen (get m ''id'') (\<lambda>j.
                          andThen (get message ''id'') (\<lambda>i. Inr (strict_eq j i))))
                    messages)
           (\<lambda>found.
              if \<not> truthy found
              then andThen (array_push ''messages'' messages message)
                     (\<lambda>messages'. saveMessages fs basePath chatId messages')
              else Inr fs))"

definition getMessage :: "filesystem \<Rightarrow> string \<Rightarrow> string \<Rightarrow> jsval \<Rightarrow> jsval res" where
  "getMessage fs basePath chatId i =
     (let messages = loadMessages fs basePath chatId
      in array_find ''messages'' (has_id i) messages)"

text \<open>\<open>xs.slice(k)\<close>, on arrays and on strings.\<close>

definition slice_from :: "int \<Rightarrow> 'a list \<Rightarrow> 'a list" where
  "slice_from k xs = (if k < 0 then drop (nat (int (length xs) + k)) xs else drop (nat k) xs)"

definition slice :: "string \<Rightarrow> jsval \<Rightarrow> jsval \<Rightarrow> jsval res" where
  "slice nm v k =
     (let start = (case k of JNum n \<Rightarrow> n | _ \<Rightarrow> 0)
      in case v of
           JArr xs \<Rightarrow> Inr (JArr (slice_from start xs))
         | JStr s \<Rightarrow> Inr (JStr (slice_from start s))
         | JUndefined \<Rightarrow> get v ''slice''
         | JNull \<Rightarrow> get v ''slice''
         | _ \<Rightarrow> Inl (TypeError (nm @ ''.slice is not a function'')))"

text \<open>
  \<open>getMessages(chatId, { from, to, limit } = {})\<close>, on the three destructured options
  (\<open>undefined\<close> when not given).
\<close>

definition getMessages ::
  "runtime \<Rightarrow> filesystem \<Rightarrow> string \<Rightarrow> string \<Rightarrow> jsval \<Rightarrow> jsval \<Rightarrow> jsval \<Rightarrow> jsval res" where
  "getMessages rt fs basePath chatId from to limit =
     (let messages = loadMessages fs basePath chatId
      in andThen
           (if truthy from \<or> truthy to
            then array_filter ''messages''
                   (\<lambda>msg. andThen (get msg ''timestamp'') (\<lambda>t.
                      let ts = time_value rt t
                      in Inr ((\<not> truthy from \<or> time_le (time_value rt from) ts)
                              \<and> (\<not> truthy to \<or> time_le ts (time_value rt to)))))
                   messages
            else Inr messages)
           (\<lambda>messages.
              if truthy limit
              then slice ''messages'' messages (js_times (Number rt limit) (- 1))
              else Inr messages))"


fun is_object :: "jsval \<Rightarrow> bool" where
  "is_object (JObj kvs) = True"
| "is_object _ = False"

text \<open>A normalized media message, and what the store gives back for it.\<close>

definition sample_message :: jsval where
  "sample_message =
     JObj [(''id'', JStr ''3EB0A1''),
           (''body'', JStr ''photo''),
           (''hasMedia'', JBool True),
           (''media'', JObj [(''mimetype'', JStr ''image/jpeg''),
                            (''getAttachments'', JFun ''getAttachments'' [])]),
           (''timestamp'', JDate (Some 1700000000000))]"


definition resent_sample :: jsval where
  "resent_sample = JObj [(''id'', JStr ''3EB0A1''), (''body'', JStr ''photo (resent)'')]"

definition corrupt_fs :: filesystem where
  "corrupt_fs = [''s/message_store/a.json'' \<mapsto> InvalidJson,
                 ''s/message_store/b.json'' \<mapsto> Unreadable]"

definition no_runtime :: runtime where
  "no_runtime =
     \<lparr>ToNumber_of = (\<lambda>v. JNaN), Date_parse = (\<lambda>v. JNaN), ToString_of = (\<lambda>v. []),
      Buffer_from = (\<lambda>v. Inl (TypeError ''The first argument must be of type string'')),
      hex_upper = (\<lambda>v. Inl (TypeError ''The first argument must be of type string'')),
      sha256_hex_upper = (\<lambda>v. Inl (TypeError ''The first argument must be of type string''))\<rparr>"

section \<open>MessageNormalizer (utils/message-normalizer.js)\<close>

text \<open>
  Methods are reached through objects: \<open>client.jidNormalizedUser(x)\<close> reads the
  property and calls what it finds. A method is a \<open>JFun\<close> value; what it computes is
  given by the host, a function of the method's name and its arguments.
\<close>

type_synonym host = "string \<Rightarrow> jsval list \<Rightarrow> jsval res"

definition call_method :: "host \<Rightarrow> jsval \<Rightarrow> string \<Rightarrow> jsval list \<Rightarrow> jsval res" where
  "call_method h recv name args =
     andThen (get recv name) (\<lambda>f.
       case f of
         JFun fname captured \<Rightarrow> h fname (captured @ args)
       | _ \<Rightarrow> Inl (TypeError (name @ '' is not a function'')))"

text \<open>\<open>v[key]\<close> for a computed key: \<open>undefined\<close> reads the property named \<open>undefined\<close>.\<close>

definition key_string :: "runtime \<Rightarrow> jsval \<Rightarrow> string" where
  "key_string rt k = (case k of JStr s \<Rightarrow> s | JUndefined \<Rightarrow> ''undefined'' | _ \<Rightarrow> ToString_of rt k)"

definition has :: "jsval \<Rightarrow> string \<Rightarrow> bool" where
  "has message k = truthy (lookup message k)"

subsection \<open>Type classification\<close>

definition has_buttons :: "jsval \<Rightarrow> bool" where
  "has_buttons message =
     (has message ''interactiveMessage''
      \<and> has (lookup message ''interactiveMessage'') ''interactiveButtons'')"

text \<open>\<open>message.interactiveMessage.interactiveButtons[0].name\<close>\<close>

definition first_button_name :: "jsval \<Rightarrow> jsval res" where
  "first_button_name message =
     get (lookup (lookup (lookup message ''interactiveMessage'') ''interactiveButtons'') ''0'')
       ''name''"

text \<open>
  The seven lines of \<open>_getFriendlyType\<close> that compare the first button's name with
  \<open>review_and_pay\<close>, ..., \<open>voice_call\<close>, one after the other; \<open>rest\<close> is what follows
  them.
\<close>

fun button_kinds :: "jsval \<Rightarrow> string list \<Rightarrow> jsval res \<Rightarrow> jsval res" where
  "button_kinds message [] rest = rest"
| "button_kinds message (k # ks) rest =
     (if has_buttons message
      then andThen (first_button_name message) (\<lambda>n.
             if strict_eq n (JStr k) then Inr (JStr k) else button_kinds message ks rest)
      else button_kinds message ks rest)"

definition has_native_flow :: "jsval \<Rightarrow> bool" where
  "has_native_flow message =
     (has message ''interactiveResponseMessage''
      \<and> has (lookup message ''interactiveResponseMessage'') ''nativeFlowResponseMessage'')"

definition interactive_kinds :: "jsval \<Rightarrow> jsval" where
  "interactive_kinds message =
     (if has_native_flow message
         \<and> strict_eq (lookup (lookup (lookup message ''interactiveResponseMessage'')
                                  ''nativeFlowResponseMessage'') ''name'')
              (JStr ''menu_options'')
      then JStr ''native_flow_menu_options_response''
      else if has_native_flow message then JStr ''native_flow_response''
      else if has_buttons message then JStr ''interactive_buttons''
      else if has message ''interactiveMessage''
              \<and> has (lookup message ''interactiveMessage'') ''interactiveList''
      then JStr ''interactive_list''
      else if has message ''interactiveResponseMessage'' then JStr ''interactive_response''
      else if has message ''interactiveMessage'' then JStr ''interactive_message''
      else JStr ''unknown'')"

definition getFriendlyType :: "jsval \<Rightarrow> jsval res" where
  "getFriendlyType message =
     (if \<not> truthy message then Inr (JStr ''unknown'')
      else if has message ''conversation'' \<or> has message ''extendedTextMessage''
      then Inr (JStr ''text'')
      else if has message ''imageMessage'' then Inr (JStr ''image'')
      else if has message ''albumMessage'' then Inr (JStr ''album'')
      else if has message ''videoMessage''
              \<or> truthy (optpath (lookup message ''associatedChildMessage'')
                           [''message'', ''videoMessage''])
      then Inr (JStr ''video'')
      else if has message ''audioMessage'' then Inr (JStr ''audio'')
      else if has message ''documentMessage'' then Inr (JStr ''document'')
      else if has message ''documentWithCaptionMessage'' then Inr (JStr ''document'')
      else if has message ''stickerMessage'' then Inr (JStr ''sticker'')
      else if has message ''locationMessage'' then Inr (JStr ''location'')
      else if has message ''contactMessage'' \<or> has message ''contactsArrayMessage''
      then Inr (JStr ''contact'')
      else if has message ''buttonsResponseMessage'' \<or> has message ''listResponseMessage''
      then Inr (JStr ''interactive_reply'')
      else if has message ''reactionMessage'' then Inr (JStr ''reaction'')
      else if has message ''pollCreationMessage'' \<or> has message ''pollCreationMessageV3''
      then Inr (JStr ''poll_creation'')
      else if has message ''pollUpdateMessage'' then Inr (JStr ''poll_update'')
      else if has message ''templateButtonReplyMessage'' then Inr (JStr ''template_button_reply'')
      else if has message ''pinInChatMessage'' then Inr (JStr ''pin_in_chat'')
      else if has message ''unpinInChatMessage'' then Inr (JStr ''unpin_in_chat'')
      else if has message ''questionReplyMessage'' then Inr (JStr ''question_reply'')
      else button_kinds message
             [''review_and_pay'', ''review_order'', ''quick_reply'', ''cta_url'', ''cta_copy'',
              ''cta_call'', ''voice_call'']
             (Inr (interactive_kinds message)))"

subsection \<open>Body extraction\<close>

fun first_truthy :: "jsval list \<Rightarrow> jsval \<Rightarrow> jsval" where
  "first_truthy [] d = d"
| "first_truthy (v # vs) d = (if truthy v then v else first_truthy vs d)"

text \<open>The operands of the \<open>||\<close> chain of \<open>_extractBody\<close> that read \<open>message\<close> through \<open>?.\<close>.\<close>

definition body_head :: "jsval \<Rightarrow> jsval" where
  "body_head message =
     first_truthy
       [optpath message [''conversation''],
        optpath message [''extendedTextMessage'', ''text''],
        optpath message [''imageMessage'', ''caption''],
        optpath message [''videoMessage'', ''caption''],
        optpath message [''associatedChildMessage'', ''message'', ''videoMessage'', ''caption''],
        optpath message [''documentWithCaptionMessage'', ''message'', ''documentMessage'', ''caption''],
        optpath message [''buttonsResponseMessage'', ''selectedDisplayText''],
        optpath message [''listResponseMessage'', ''title''],
        optpath message [''templateButtonReplyMessage'', ''selectedDisplayText'']]
       JUndefined"

text \<open>The tenth operand reads \<open>message.interactiveResponseMessage\<close> without \<open>?.\<close>.\<close>

definition extractBody :: "jsval \<Rightarrow> jsval res" where
  "extractBody message =
     (if truthy (body_head message) then Inr (body_head message)
      else andThen (get message ''interactiveResponseMessage'') (\<lambda>irm.
             Inr (first_truthy
                    [optpath irm [''body'', ''text''],
                     optpath message [''questionReplyMessage'', ''message'',
                                      ''extendedTextMessage'', ''text'']]
                    (JStr []))))"

subsection \<open>Strings and arrays\<close>

text \<open>
  Strings are lists of 8-bit characters. \<open>s.endsWith(x)\<close>, \<open>a.map(f)\<close> and
  \<open>a.includes(x)\<close> exist on strings or arrays only; on another value the call is a
  \<open>TypeError\<close>.
\<close>

definition ends_with :: "string \<Rightarrow> string \<Rightarrow> bool" where
  "ends_with s suffix =
     (length suffix \<le> length s \<and> drop (length s - length suffix) s = suffix)"

definition endsWith :: "string \<Rightarrow> jsval \<Rightarrow> string \<Rightarrow> bool res" where
  "endsWith nm v suffix =
     (case v of
        JStr s \<Rightarrow> Inr (ends_with s suffix)
      | JUndefined \<Rightarrow> andThen (get v ''endsWith'') (\<lambda>f. Inr False)
      | JNull \<Rightarrow> andThen (get v ''endsWith'') (\<lambda>f. Inr False)
      | _ \<Rightarrow> Inl (TypeError (nm @ ''.endsWith is not a function'')))"

fun map_res :: "(jsval \<Rightarrow> jsval res) \<Rightarrow> jsval list \<Rightarrow> jsval list res" where
  "map_res f [] = Inr []"
| "map_res f (x # xs) =
     (case f x of
        Inl e \<Rightarrow> Inl e
      | Inr y \<Rightarrow> (case map_res f xs of Inl e \<Rightarrow> Inl e | Inr ys \<Rightarrow> Inr (y # ys)))"

definition array_map :: "string \<Rightarrow> (jsval \<Rightarrow> jsval res) \<Rightarrow> jsval \<Rightarrow> jsval res" where
  "array_map nm f v =
     (case v of
        JArr xs \<Rightarrow> (case map_res f xs of Inl e \<Rightarrow> Inl e | Inr ys \<Rightarrow> Inr (JArr ys))
      | JUndefined \<Rightarrow> get v ''map''
      | JNull \<Rightarrow> get v ''map''
      | _ \<Rightarrow> Inl (TypeError (nm @ ''.map is not a function'')))"

fun is_infix :: "string \<Rightarrow> string \<Rightarrow> bool" where
  "is_infix t [] = (t = [])"
| "is_infix t (c # cs) = (take (length t) (c # cs) = t \<or> is_infix t cs)"

text \<open>\<open>SameValueZero\<close>, the comparison of \<open>includes\<close>: \<open>NaN\<close> is found.\<close>

definition same_value_zero :: "jsval \<Rightarrow> jsval \<Rightarrow> bool" where
  "same_value_zero a b = (primitive a \<and> a = b)"

definition js_includes :: "runtime \<Rightarrow> string \<Rightarrow> jsval \<Rightarrow> jsval \<Rightarrow> bool res" where
  "js_includes rt nm v x =
     (case v of
        JArr xs \<Rightarrow> Inr (list_ex (\<lambda>y. same_value_zero y x) xs)
      | JStr s \<Rightarrow> Inr (is_infix (case x of JStr t \<Rightarrow> t | _ \<Rightarrow> ToString_of rt x) s)
      | JUndefined \<Rightarrow> andThen (get v ''includes'') (\<lambda>f. Inr False)
      | JNull \<Rightarrow> andThen (get v ''includes'') (\<lambda>f. Inr False)
      | _ \<Rightarrow> Inl (TypeError (nm @ ''.includes is not a function'')))"

text \<open>\<open>a > k\<close> for a number \<open>k\<close>.\<close>

definition greater_than :: "runtime \<Rightarrow> jsval \<Rightarrow> int \<Rightarrow> bool" where
  "greater_than rt a k = (case Number rt a of JNum n \<Rightarrow> k < n | _ \<Rightarrow> False)"

subsection \<open>Contact cards\<close>

text \<open>
  The two patterns of \<open>parseVcard\<close>: \<open>/FN:(.+)/\<close> captures what follows the first
  \<open>FN:\<close> that is followed by a character of the same line, up to the end of that line;
  \<open>/waid=(\\d+)/\<close> captures the digits that follow the first \<open>waid=\<close> followed by a digit.
\<close>

definition line_terminator :: "char \<Rightarrow> bool" where
  "line_terminator c = (c = CHR 0x0A \<or> c = CHR 0x0D)"

definition rest_of_line :: "string \<Rightarrow> string" where
  "rest_of_line s = takeWhile (\<lambda>c. \<not> line_terminator c) s"

definition leading_digits :: "string \<Rightarrow> string" where
  "leading_digits s = takeWhile (\<lambda>c. digit_val c \<noteq> None) s"

fun match_FN :: "string \<Rightarrow> string option" where
  "match_FN [] = None"
| "match_FN (c # cs) =
     (if take 3 (c # cs) = ''FN:'' \<and> rest_of_line (drop 3 (c # cs)) \<noteq> []
      then Some (rest_of_line (drop 3 (c # cs)))
      else match_FN cs)"

fun match_waid :: "string \<Rightarrow> string option" where
  "match_waid [] = None"
| "match_waid (c # cs) =
     (if take 5 (c # cs) = ''waid='' \<and> leading_digits (drop 5 (c # cs)) \<noteq> []
      then Some (leading_digits (drop 5 (c # cs)))
      else match_waid cs)"

definition parseVcard :: "jsval \<Rightarrow> jsval res" where
  "parseVcard vcard =
     (case (if vcard = JUndefined then JStr [] else vcard) of
        JStr s \<Rightarrow>
          Inr (JObj [(''name'', JStr (filter (\<lambda>c. c \<noteq> CHR 0x5C)
                                       (case match_FN s of Some n \<Rightarrow> n | None \<Rightarrow> []))),
                     (''number'', JStr (case match_waid s of Some n \<Rightarrow> n | None \<Rightarrow> []))])
      | JNull \<Rightarrow> get JNull ''match''
      | _ \<Rightarrow> Inl (TypeError ''vcard.match is not a function''))"

definition extractContacts :: "jsval \<Rightarrow> jsval res" where
  "extractContacts message =
     (if truthy (optget message ''contactMessage'')
      then andThen (parseVcard (lookup (optget message ''contactMessage'') ''vcard''))
             (\<lambda>c. Inr (JArr [c]))
      else if truthy (optpath message [''contactsArrayMessage'', ''contacts''])
      then array_map ''multiContact'' (\<lambda>c. andThen (get c ''vcard'') parseVcard)
             (optpath message [''contactsArrayMessage'', ''contacts''])
      else Inr (JArr []))"

subsection \<open>Interactive replies, reactions and poll creation\<close>

definition extractInteractiveReply :: "jsval \<Rightarrow> jsval res" where
  "extractInteractiveReply message =
     (if truthy (optget message ''buttonsResponseMessage'')
      then Inr (JObj [(''id'', lookup (optget message ''buttonsResponseMessage'') ''selectedButtonId''),
                      (''text'', lookup (optget message ''buttonsResponseMessage'') ''selectedDisplayText'')])
      else if truthy (optget message ''listResponseMessage'')
      then Inr (JObj [(''id'', optpath (optget message ''listResponseMessage'')
                                [''singleSelectReply'', ''selectedRowId'']),
                      (''text'', lookup (optget message ''listResponseMessage'') ''title'')])
      else if truthy (optget message ''interactiveResponseMessage'')
      then andThen (get (lookup (optget message ''interactiveResponseMessage'')
                           ''nativeFlowResponseMessage'') ''name'') (\<lambda>n.
           andThen (get (lookup (optget message ''interactiveResponseMessage'')
                           ''nativeFlowResponseMessage'') ''paramsJson'') (\<lambda>p.
             Inr (JObj [(''id'', n), (''text'', p)])))
      else if truthy (optget message ''questionReplyMessage'')
      then Inr (JObj [(''id'', lookup (optget message ''questionReplyMessage'') ''selectedButtonId''),
                      (''text'', lookup (optget message ''questionReplyMessage'') ''selectedDisplayText'')])
      else Inr JNull)"

definition extractReaction :: "runtime \<Rightarrow> jsval \<Rightarrow> jsval res" where
  "extractReaction rt message =
     (if \<not> truthy (optget message ''reactionMessage'') then Inr JNull
      else andThen (get (lookup (optget message ''reactionMessage'') ''key'') ''id'') (\<lambda>i.
             Inr (JObj [(''emoji'', lookup (optget message ''reactionMessage'') ''text''),
                        (''reactedMessageId'', i),
                        (''senderTimestamp'',
                         new_Date rt (Number rt (lookup (optget message ''reactionMessage'')
                                                    ''senderTimestampMs'')))])))"

text \<open>\<open>opt => ({ name: opt.optionName || null, hash: opt.optionHash || null })\<close>\<close>

definition poll_option :: "jsval \<Rightarrow> jsval res" where
  "poll_option opt =
     andThen (get opt ''optionName'') (\<lambda>n.
       Inr (JObj [(''name'', js_or n JNull), (''hash'', js_or (lookup opt ''optionHash'') JNull)]))"

text \<open>The object \<open>_extractPollCreation\<close> builds once the poll is found.\<close>

definition poll_record :: "runtime \<Rightarrow> jsval \<Rightarrow> jsval \<Rightarrow> jsval \<Rightarrow> jsval res" where
  "poll_record rt raw message poll =
     andThen (get raw ''key'') (\<lambda>key.
     andThen (get key ''id'') (\<lambda>i.
     andThen (array_map ''(intermediate value)'' poll_option
                (js_or (lookup poll ''options'') (JArr []))) (\<lambda>options.
       Inr (JObj [(''id'', i),
                  (''creator'', JObj [(''jid'', lookup key ''remoteJid''),
                                     (''pushName'', lookup raw ''pushName''),
                                     (''verifiedBizName'', lookup raw ''verifiedBizName'')]),
                  (''name'', lookup poll ''name''),
                  (''selectableOptionsCount'', lookup poll ''selectableOptionsCount''),
                  (''allowsMultipleAnswers'',
                   JBool (greater_than rt (lookup poll ''selectableOptionsCount'') 1)),
                  (''options'', options),
                  (''messageSecret'', optget (lookup message ''messageContextInfo'') ''messageSecret''),
                  (''senderTimestamp'',
                   (if truthy (lookup poll ''messageTimestamp'')
                    then new_Date rt (js_times (Number rt (lookup poll ''messageTimestamp'')) 1000)
                    else JNull)),
                  (''raw'', poll)]))))"

definition extractPollCreation :: "runtime \<Rightarrow> jsval \<Rightarrow> jsval res" where
  "extractPollCreation rt raw =
     andThen (get raw ''message'') (\<lambda>message.
       if truthy (optget message ''pollCreationMessage'')
       then poll_record rt raw message (optget message ''pollCreationMessage'')
       else andThen (get message ''pollCreationMessageV3'') (\<lambda>poll.
              if \<not> truthy poll then Inr JNull else poll_record rt raw message poll))"

subsection \<open>Media and location\<close>

text \<open>\<open>Object.keys(v).find(key => key != "messageContextInfo")\<close>\<close>

definition first_type_key :: "jsval \<Rightarrow> jsval res" where
  "first_type_key v =
     andThen (Object_keys v) (\<lambda>ks.
       Inr (case List.find (\<lambda>k. k \<noteq> ''messageContextInfo'') ks of
              Some k \<Rightarrow> JStr k
            | None \<Rightarrow> JUndefined))"

text \<open>The content and the type key \<open>_enrichWithTypedData\<close> works on.\<close>

definition typed_content :: "jsval \<Rightarrow> (jsval \<times> jsval) res" where
  "typed_content message =
     andThen (first_type_key message) (\<lambda>t.
       if strict_eq t (JStr ''associatedChildMessage'')
       then andThen (get (lookup message ''associatedChildMessage'') ''message'') (\<lambda>content.
            andThen (first_type_key content) (\<lambda>t'. Inr (content, t')))
       else Inr (message, t))"

definition mediaTypes :: "string list" where
  "mediaTypes =
     [''imageMessage'', ''videoMessage'', ''audioMessage'', ''documentMessage'',
      ''stickerMessage'', ''documentWithCaptionMessage'']"

definition is_media_type :: "jsval \<Rightarrow> bool" where
  "is_media_type t = (case t of JStr k \<Rightarrow> k \<in> set mediaTypes | _ \<Rightarrow> False)"

text \<open>
  The media descriptor. \<open>getAttachments\<close> is a function that captures the root data
  and is not called here.
\<close>

definition media_of :: "jsval \<Rightarrow> jsval \<Rightarrow> jsval" where
  "media_of content mc =
     JObj [(''mimetype'', js_or (lookup mc ''mimetype'')
                            (optpath (lookup mc ''message'') [''documentMessage'', ''mimetype''])),
           (''fileName'', js_or (lookup mc ''fileName'')
                            (optpath (lookup mc ''message'') [''documentMessage'', ''title''])),
           (''caption'', js_or (lookup mc ''caption'')
                           (optpath (lookup mc ''message'') [''documentMessage'', ''caption''])),
           (''duration'', js_or (lookup mc ''seconds'') JNull),
           (''isPtt'', js_or (lookup mc ''ptt'') (JBool False)),
           (''isGif'', js_or (lookup mc ''gifPlayback'') (JBool False)),
           (''isViewOnce'', js_or (lookup mc ''viewOnce'') (JBool False)),
           (''getAttachments'',
            JFun ''getAttachments''
              [if truthy (lookup content ''documentWithCaptionMessage'')
               then lookup content ''documentWithCaptionMessage'' else content])]"

text \<open>\<open>o.k = v\<close> on an object or on a promise object.\<close>

fun set_prop :: "jsval \<Rightarrow> string \<Rightarrow> jsval \<Rightarrow> jsval" where
  "set_prop (JObj kvs) k v = JObj (assign kvs k v)"
| "set_prop (JPromise w ps) k v = JPromise w (assign ps k v)"
| "set_prop x k v = x"

definition enrichWithTypedData :: "runtime \<Rightarrow> jsval \<Rightarrow> jsval \<Rightarrow> jsval res" where
  "enrichWithTypedData rt normalized rawMessage =
     andThen (typed_content (lookup rawMessage ''message'')) (\<lambda>(content, t).
     andThen (get content (key_string rt t)) (\<lambda>mc.
     andThen (if is_media_type t
              then andThen (get mc ''mimetype'') (\<lambda>mt.
                     Inr (set_prop (set_prop normalized ''hasMedia'' (JBool True))
                            ''media'' (media_of content mc)))
              else Inr normalized) (\<lambda>normalized'.
       if strict_eq t (JStr ''locationMessage'')
       then andThen (get mc ''degreesLatitude'') (\<lambda>lat.
              Inr (set_prop normalized' ''location''
                     (JObj [(''latitude'', lat), (''longitude'', lookup mc ''degreesLongitude'')])))
       else Inr normalized')))"

subsection \<open>Poll votes\<close>

text \<open>\<open>client.jidNormalizedUser(client.sock.user.id)\<close>\<close>

definition client_jid :: "host \<Rightarrow> jsval \<Rightarrow> jsval res" where
  "client_jid h client =
     andThen (get client ''jidNormalizedUser'') (\<lambda>f.
     andThen (get client ''sock'') (\<lambda>sock.
     andThen (get sock ''user'') (\<lambda>user.
     andThen (get user ''id'') (\<lambda>uid.
       call_method h client ''jidNormalizedUser'' [uid]))))"

text \<open>\<open>await x\<close>: the value a promise settles to, the value itself otherwise.\<close>

definition await :: "jsval res \<Rightarrow> jsval res" where
  "await r =
     (case r of
        Inl e \<Rightarrow> Inl e
      | Inr (JPromise v ps) \<Rightarrow> Inr v
      | Inr (JRejected e) \<Rightarrow> Inl e
      | Inr v \<Rightarrow> Inr v)"

text \<open>\<open>for (const x of v)\<close>: the elements the loop visits.\<close>

definition iterate :: "jsval \<Rightarrow> jsval list res" where
  "iterate v =
     (case v of
        JArr xs \<Rightarrow> Inr xs
      | JStr s \<Rightarrow> Inr (map (\<lambda>c. JStr [c]) s)
      | _ \<Rightarrow> Inl (TypeError ''value is not iterable''))"

text \<open>The degraded result: no selection, and the reason.\<close>

definition degraded :: "runtime \<Rightarrow> jsval \<Rightarrow> (string \<times> jsval) list \<Rightarrow> jsval" where
  "degraded rt pollUpdate reason =
     JObj ([(''pollCreationMessageId'', optget (lookup pollUpdate ''pollCreationMessageKey'') ''id''),
            (''voterTimestamp'', new_Date rt (Number rt (lookup pollUpdate ''senderTimestampMs''))),
            (''selectedOptions'', JArr [])] @ reason)"

text \<open>The inner loop: the first option whose hash is the decrypted one.\<close>

fun matching_option :: "runtime \<Rightarrow> jsval \<Rightarrow> jsval list \<Rightarrow> jsval option res" where
  "matching_option rt hashHex [] = Inr None"
| "matching_option rt hashHex (opt # opts) =
     andThen (get opt ''optionName'') (\<lambda>n.
     andThen (sha256_hex_upper rt n) (\<lambda>hash.
       if strict_eq hashHex hash then Inr (Some n) else matching_option rt hashHex opts))"

fun selected_options :: "runtime \<Rightarrow> jsval list \<Rightarrow> jsval \<Rightarrow> jsval list res" where
  "selected_options rt [] options = Inr []"
| "selected_options rt (d # ds) options =
     andThen (hex_upper rt d) (\<lambda>hashHex.
     andThen (iterate (js_or options (JArr []))) (\<lambda>opts.
     andThen (matching_option rt hashHex opts) (\<lambda>m.
     andThen (selected_options rt ds options) (\<lambda>rest.
       Inr (case m of Some n \<Rightarrow> n # rest | None \<Rightarrow> rest)))))"

text \<open>
  \<open>await client.store.getMessage(pollUpdate.pollCreationMessageKey.remoteJid,
  pollUpdate.pollCreationMessageKey.id)\<close>
\<close>

definition lookup_creation :: "host \<Rightarrow> jsval \<Rightarrow> jsval \<Rightarrow> jsval res" where
  "lookup_creation h client pollUpdate =
     andThen (get client ''store'') (\<lambda>store.
     andThen (get store ''getMessage'') (\<lambda>f.
     andThen (get (lookup pollUpdate ''pollCreationMessageKey'') ''remoteJid'') (\<lambda>jid.
     andThen (get (lookup pollUpdate ''pollCreationMessageKey'') ''id'') (\<lambda>i.
       await (call_method h store ''getMessage'' [jid, i])))))"

text \<open>
  The poll of a creation message: \<open>pollCreationMessage\<close>, else
  \<open>pollCreationMessageV3\<close>. The code stores it back into the message, which throws
  when the message is a primitive (class bodies are strict code).
\<close>

definition creation_poll :: "jsval \<Rightarrow> jsval res" where
  "creation_poll cm =
     andThen (get cm ''pollCreationMessage'') (\<lambda>p.
       if primitive cm
       then Inl (TypeError ''Cannot create property pollCreationMessage'')
       else Inr (js_or p (lookup cm ''pollCreationMessageV3'')))"

text \<open>Decryption and matching, once the creation record is complete.\<close>

definition decrypt_vote ::
  "host \<Rightarrow> runtime \<Rightarrow> jsval \<Rightarrow> jsval \<Rightarrow> jsval \<Rightarrow> bool \<Rightarrow> jsval \<Rightarrow> jsval \<Rightarrow> jsval \<Rightarrow> jsval \<Rightarrow> jsval res" where
  "decrypt_vote h rt msg client clientJid isGroup pollUpdate raw secret poll =
     andThen (Object_values secret) (\<lambda>vals.
     andThen (Buffer_from rt (JArr vals)) (\<lambda>pollEncKey.
     andThen (get raw ''key'') (\<lambda>key.
     andThen (get key ''remoteJid'') (\<lambda>creator.
     andThen (await (call_method h client ''decryptPollVote''
                [lookup pollUpdate ''vote'',
                 JObj [(''pollCreatorJid'', creator),
                       (''pollMsgId'', lookup key ''id''),
                       (''pollEncKey'', pollEncKey),
                       (''voterJid'',
                        (if isGroup then lookup (lookup msg ''key'') ''participant''
                         else if truthy (lookup (lookup msg ''key'') ''fromMe'') then clientJid
                         else lookup (lookup msg ''key'') ''remoteJid''))]])) (\<lambda>decrypted.
     andThen (get decrypted ''selectedOptions'') (\<lambda>sel.
     andThen (iterate sel) (\<lambda>hashes.
     andThen (selected_options rt hashes (lookup poll ''options'')) (\<lambda>selectedOptions.
       Inr (JObj [(''pollCreationMessageId'',
                   optget (lookup pollUpdate ''pollCreationMessageKey'') ''id''),
                  (''voterTimestamp'',
                   new_Date rt (Number rt (lookup pollUpdate ''senderTimestampMs''))),
                  (''selectedOptions'', JArr selectedOptions),
                  (''success'', JBool (selectedOptions \<noteq> []))])))))))))"

text \<open>The body of the \<open>try\<close> block.\<close>

definition poll_try ::
  "host \<Rightarrow> runtime \<Rightarrow> jsval \<Rightarrow> jsval \<Rightarrow> jsval \<Rightarrow> bool \<Rightarrow> jsval \<Rightarrow> jsval res" where
  "poll_try h rt msg client clientJid isGroup pollUpdate =
     andThen (lookup_creation h client pollUpdate) (\<lambda>creationMsg.
       if \<not> truthy creationMsg then Inr JNull
       else andThen (get creationMsg ''raw'') (\<lambda>raw.
            andThen (get raw ''message'') (\<lambda>cm.
            andThen (creation_poll cm) (\<lambda>poll.
              if \<not> truthy poll
              then Inr (degraded rt pollUpdate
                          [(''error'', JStr ''Poll creation message not found'')])
              else andThen (get (lookup cm ''messageContextInfo'') ''messageSecret'') (\<lambda>secret.
                     if \<not> truthy secret \<or> \<not> truthy (lookup poll ''name'')
                        \<or> \<not> truthy (lookup poll ''options'')
                     then Inr (degraded rt pollUpdate
                                 [(''error'', JStr ''Incomplete poll creation data'')])
                     else decrypt_vote h rt msg client clientJid isGroup pollUpdate
                            raw secret poll)))))"

text \<open>The \<open>catch\<close> block: it reads \<open>err.message\<close> and \<open>err.code\<close>.\<close>

definition poll_catch :: "runtime \<Rightarrow> jsval \<Rightarrow> jsval \<Rightarrow> jsval res" where
  "poll_catch rt pollUpdate err =
     andThen (get err ''message'') (\<lambda>m.
       Inr (degraded rt pollUpdate [(''error'', m), (''code'', lookup err ''code'')]))"

definition extractPollUpdate :: "host \<Rightarrow> runtime \<Rightarrow> jsval \<Rightarrow> jsval \<Rightarrow> jsval res" where
  "extractPollUpdate h rt msg client =
     andThen (get msg ''key'') (\<lambda>key.
     andThen (get key ''remoteJid'') (\<lambda>remoteJid.
     andThen (endsWith ''msg.key.remoteJid'' remoteJid ''@g.us'') (\<lambda>isGroup.
     andThen (client_jid h client) (\<lambda>clientJid.
       if \<not> truthy (optget (lookup msg ''message'') ''pollUpdateMessage'')
          \<or> \<not> truthy (lookup (optget (lookup msg ''message'') ''pollUpdateMessage'')
                         ''pollCreationMessageKey'')
       then Inr JNull
       else (case poll_try h rt msg client clientJid isGroup
                    (optget (lookup msg ''message'') ''pollUpdateMessage'') of
               Inr v \<Rightarrow> Inr v
             | Inl err \<Rightarrow>
                 poll_catch rt (optget (lookup msg ''message'') ''pollUpdateMessage'') err)))))"

subsection \<open>\<open>normalize\<close>\<close>

text \<open>\<open>Object.keys(rawMessage.message)[0]\<close>\<close>

definition original_type :: "jsval \<Rightarrow> jsval" where
  "original_type message =
     (case Object_keys message of Inr (k # ks) \<Rightarrow> JStr k | _ \<Rightarrow> JUndefined)"

text \<open>
  \<open>messageContent?.contextInfo || rawMessage.message?.messageContextInfo\<close>, where
  \<open>messageContent = rawMessage.message[originalType]\<close>.
\<close>

definition context_info :: "runtime \<Rightarrow> jsval \<Rightarrow> jsval" where
  "context_info rt message =
     js_or (optget (lookup message (key_string rt (original_type message))) ''contextInfo'')
           (optget message ''messageContextInfo'')"

text \<open>
  The object literal \<open>normalized\<close>, its fields evaluated in the order they are written;
  the first field that throws ends the normalization.
\<close>

definition build_normalized :: "host \<Rightarrow> runtime \<Rightarrow> jsval \<Rightarrow> jsval \<Rightarrow> jsval \<Rightarrow> jsval res" where
  "build_normalized h rt contact rawMessage client =
     andThen (getFriendlyType (lookup rawMessage ''message'')) (\<lambda>type.
     andThen (client_jid h client) (\<lambda>clientJid.
     andThen (get (lookup rawMessage ''key'') ''fromMe'') (\<lambda>fromMe.
     andThen (get contact ''id'') (\<lambda>contactId.
     andThen (if truthy fromMe then andThen (get client ''user'') (\<lambda>u. get u ''name'')
              else Inr (lookup contact ''name'')) (\<lambda>fromPushName.
     andThen (extractBody (lookup rawMessage ''message'')) (\<lambda>body.
     andThen (extractContacts (lookup rawMessage ''message'')) (\<lambda>contacts.
     andThen (js_includes rt ''(intermediate value)''
                (js_or (optget (context_info rt (lookup rawMessage ''message'')) ''mentionedJid'')
                       (JArr []))
                clientJid) (\<lambda>isMentioningMe.
     andThen (extractInteractiveReply (lookup rawMessage ''message'')) (\<lambda>interactiveReply.
     andThen (extractReaction rt (lookup rawMessage ''message'')) (\<lambda>reaction.
     andThen (extractPollUpdate h rt rawMessage client) (\<lambda>pollUpdate.
     andThen (extractPollCreation rt rawMessage) (\<lambda>poll.
       Inr (JObj
         [(''id'', lookup (lookup rawMessage ''key'') ''id''),
          (''chat'', contact),
          (''fromMe'', fromMe),
          (''from'', if truthy fromMe then clientJid else contactId),
          (''fromPushName'', fromPushName),
          (''to'', if truthy fromMe then contactId else clientJid),
          (''type'', type),
          (''body'', body),
          (''hasMedia'', JBool False),
          (''media'', JNull),
          (''location'', JNull),
          (''contacts'', contacts),
          (''isReply'',
           JBool (truthy (optget (context_info rt (lookup rawMessage ''message''))
                            ''quotedMessage''))),
          (''quotedMessage'', JNull),
          (''isForwarded'',
           JBool (truthy (optget (context_info rt (lookup rawMessage ''message''))
                            ''isForwarded''))),
          (''forwardingScore'',
           js_or (optget (context_info rt (lookup rawMessage ''message'')) ''forwardingScore'')
                 (JNum 0)),
          (''mentions'',
           js_or (optget (context_info rt (lookup rawMessage ''message'')) ''mentionedJid'')
                 (JArr [])),
          (''isMentioningMe'', JBool isMentioningMe),
          (''isEdited'', JBool False),
          (''interactiveReply'', interactiveReply),
          (''reaction'', reaction),
          (''pollUpdate'', pollUpdate),
          (''poll'', poll),
          (''timestamp'',
           new_Date rt (js_times (Number rt (lookup rawMessage ''messageTimestamp'')) 1000)),
          (''raw'', rawMessage)])))))))))))))"

text \<open>
  The envelope the edit branch builds, and the one the reply branch builds from the
  quoted content and the quoting context.
\<close>

definition edit_envelope :: "jsval \<Rightarrow> jsval" where
  "edit_envelope rawMessage =
     JObj [(''key'', lookup (lookup (lookup rawMessage ''message'') ''protocolMessage'') ''key''),
           (''message'',
            optpath (lookup rawMessage ''message'') [''protocolMessage'', ''editedMessage'']),
           (''pushName'', lookup rawMessage ''pushName'')]"

definition quoted_envelope :: "host \<Rightarrow> jsval \<Rightarrow> jsval \<Rightarrow> jsval \<Rightarrow> jsval res" where
  "quoted_envelope h normalized contextInfo client =
     andThen (get (lookup normalized ''chat'') ''id'') (\<lambda>chatId.
     andThen (get contextInfo ''stanzaId'') (\<lambda>stanzaId.
     andThen (call_method h client ''jidNormalizedUser'' [lookup contextInfo ''participant''])
       (\<lambda>participantJid.
     andThen (client_jid h client) (\<lambda>clientJid.
       Inr (JObj [(''key'', JObj [(''remoteJid'', chatId),
                                 (''id'', stanzaId),
                                 (''fromMe'', JBool (strict_eq participantJid clientJid)),
                                 (''participant'', lookup contextInfo ''participant'')]),
                  (''message'', lookup contextInfo ''quotedMessage'')])))))"

text \<open>
  Calling an \<open>async\<close> function without \<open>await\<close> yields a promise; returning a promise
  from an \<open>async\<close> function settles the caller with what the promise settles to.
\<close>

definition promise_of :: "jsval res \<Rightarrow> jsval" where
  "promise_of r = (case r of Inl e \<Rightarrow> JRejected e | Inr v \<Rightarrow> JPromise v [])"

definition settle :: "jsval \<Rightarrow> jsval res" where
  "settle p = (case p of JPromise v ps \<Rightarrow> Inr v | JRejected e \<Rightarrow> Inl e | _ \<Rightarrow> Inr p)"

text \<open>
  \<open>normalize(contact, rawMessage, client)\<close>. Its two inner calls are written
  \<open>this.normalize(envelope, client)\<close>: the envelope is bound to \<open>contact\<close>, the client to
  \<open>rawMessage\<close>, and \<open>client\<close> is \<open>undefined\<close>; neither call is awaited.
\<close>

function normalize :: "host \<Rightarrow> runtime \<Rightarrow> jsval \<Rightarrow> jsval \<Rightarrow> jsval \<Rightarrow> jsval res" where
  "normalize h rt contact rawMessage client =
     (if \<not> truthy rawMessage \<or> \<not> truthy (lookup rawMessage ''message'') then Inr JNull
      else if truthy (optpath (lookup rawMessage ''message'') [''protocolMessage'', ''editedMessage''])
      then (let normalizedEdit =
                  promise_of (normalize h rt (edit_envelope rawMessage) client JUndefined)
            in if truthy normalizedEdit
               then andThen (get (lookup (lookup (lookup rawMessage ''message'')
                                            ''protocolMessage'') ''key'') ''id'') (\<lambda>originalId.
                      settle (set_prop (set_prop normalizedEdit ''isEdited'' (JBool True))
                                ''id'' originalId))
               else settle normalizedEdit)
      else andThen (build_normalized h rt contact rawMessage client) (\<lambda>built.
           andThen (enrichWithTypedData rt built rawMessage) (\<lambda>normalized.
             if truthy (lookup normalized ''isReply'')
             then andThen (quoted_envelope h normalized
                             (context_info rt (lookup rawMessage ''message'')) client)
                    (\<lambda>quotedRaw.
                       Inr (set_prop normalized ''quotedMessage''
                              (promise_of (normalize h rt quotedRaw client JUndefined))))
             else Inr normalized)))"
  by pat_completeness auto
termination
  by (relation "measure (\<lambda>(h, rt, contact, rawMessage, client).
                  if \<not> truthy rawMessage then 0 else if client = JUndefined then 1 else 2)")
     auto

declare normalize.simps [simp del]

section \<open>Client (the second file of utils/generic-utils.js)\<close>

text \<open>
  The functions of the underlying library the client forwards to, and its disconnect
  codes. They are not part of this repository.
\<close>

record baileys =
  jidNormalizedUser :: "jsval \<Rightarrow> jsval"
  decryptPollVote :: "jsval \<Rightarrow> jsval \<Rightarrow> jsval res"
  restartRequired :: int
  loggedOut :: int
  unavailableService :: int

text \<open>
  A \<open>MessageStore\<close> instance and a \<open>Client\<close> instance as objects: their fields and
  methods. The store has \<open>saveMessage\<close>, \<open>getMessage\<close> and \<open>getMessages\<close>; the client
  has no property \<open>message\<close>.
\<close>

definition MessageStore_object :: "string \<Rightarrow> jsval" where
  "MessageStore_object sessionPath =
     JObj [(''basePath'', JStr (MessageStore sessionPath)),
           (''saveMessage'', JFun ''store.saveMessage'' []),
           (''getMessage'', JFun ''store.getMessage'' []),
           (''getMessages'', JFun ''store.getMessages'' [])]"

definition Client_object :: "string \<Rightarrow> jsval \<Rightarrow> jsval \<Rightarrow> jsval \<Rightarrow> jsval" where
  "Client_object sessionPath store sockUser user =
     JObj [(''sock'', JObj [(''user'', sockUser)]),
           (''sessionPath'', JStr sessionPath),
           (''store'', store),
           (''user'', user),
           (''messages'', JObj [(''getAttachments'', JFun ''messages.getAttachments'' [])]),
           (''jidNormalizedUser'', JFun ''jidNormalizedUser'' []),
           (''decryptPollVote'', JFun ''decryptPollVote'' [])]"

definition arg :: "jsval list \<Rightarrow> nat \<Rightarrow> jsval" where
  "arg args i = (if i < length args then args ! i else JUndefined)"

text \<open>What the methods of a client with the default store compute.\<close>

definition client_host :: "baileys \<Rightarrow> runtime \<Rightarrow> filesystem \<Rightarrow> string \<Rightarrow> host" where
  "client_host lib rt fs sessionPath name args =
     (if name = ''jidNormalizedUser'' then Inr (jidNormalizedUser lib (arg args 0))
      else if name = ''decryptPollVote'' then decryptPollVote lib (arg args 0) (arg args 1)
      else if name = ''store.getMessage''
      then getMessage fs (MessageStore sessionPath) (key_string rt (arg args 0)) (arg args 1)
      else Inl (TypeError (name @ '' is not available'')))"

subsection \<open>State, collaborators and effects\<close>

text \<open>
  The fields of the client the two handlers read or write, with the files of the data
  directory and the cache of \<open>ContactHandler\<close>. \<open>store\<close> is the store object the client
  was built with; \<open>presenceSetInterval\<close> tells whether the heartbeat timer is armed.
\<close>

record client_state =
  sessionPath :: string
  status :: string
  connected :: bool
  manualDisconnect :: bool
  restartOnClose :: bool
  isOnline :: bool
  receivedPendingNotifications :: bool
  qrCode :: jsval
  qrCodeAttempts :: jsval
  presenceSetInterval :: bool
  user :: jsval
  sockUser :: jsval
  store :: jsval
  contacts :: "jsval \<Rightarrow> jsval option"
  files :: filesystem

text \<open>
  What lies outside the repository or talks to the network: the library and the runtime,
  \<open>new Boom(error)\<close>, \<open>QRCode.toDataURL\<close>, \<open>users.getPnForLid\<close>,
  \<open>ContactHandler.normalize\<close> (it queries profile, status and group data), \<open>itsMe\<close>,
  whether \<open>fs.rm\<close> fails, and the methods of a store other than the default one.
\<close>

record environment =
  env_lib :: baileys
  env_runtime :: runtime
  env_Boom :: "jsval \<Rightarrow> jsval"
  env_toDataURL :: "jsval \<Rightarrow> jsval res"
  env_getPnForLid :: "jsval \<Rightarrow> jsval res"
  env_contacts_normalize :: "jsval \<Rightarrow> jsval res"
  env_itsMe :: "jsval res"
  env_rm_error :: "jsval option"
  env_other_methods :: host

text \<open>
  What a handler does to the outside, in order: an event emitted to the subscribers, the
  heartbeat timer set or cleared, the session directory removed, \<open>this.connect()\<close>
  called, a method of a pluggable store called.
\<close>

datatype action =
    Emit string jsval
  | SetInterval int
  | ClearInterval
  | Remove string
  | Connect
  | StoreCall string "jsval list"

definition client_object :: "client_state \<Rightarrow> jsval" where
  "client_object st = Client_object (sessionPath st) (store st) (sockUser st) (user st)"

definition methods :: "environment \<Rightarrow> client_state \<Rightarrow> host" where
  "methods env st name args =
     (if name = ''jidNormalizedUser'' \<or> name = ''decryptPollVote'' \<or> name = ''store.getMessage''
      then client_host (env_lib env) (env_runtime env) (files st) (sessionPath st) name args
      else env_other_methods env name args)"


subsection \<open>The \<open>connection.update\<close> handler\<close>








text \<open>The state once the timer is cancelled and the connection marked closed.\<close>

definition closed :: "client_state \<Rightarrow> client_state" where
  "closed st = st\<lparr>presenceSetInterval := False, qrCode := JNull, connected := False\<rparr>"



text \<open>
  The handler: the state it leaves, what it did, and the value it throws if it does
  (it has no \<open>try\<close> of its own).
\<close>

definition noted :: "client_state \<Rightarrow> jsval \<Rightarrow> client_state" where
  "noted st update =
     st\<lparr>receivedPendingNotifications :=
           receivedPendingNotifications st \<or> truthy (lookup update ''receivedPendingNotifications''),
        isOnline := isOnline st \<or> truthy (lookup update ''isOnline'')\<rparr>"



text \<open>The disconnect events among the actions, and what classifies one.\<close>

fun disconnects :: "action list \<Rightarrow> jsval list" where
  "disconnects [] = []"
| "disconnects (Emit name payload # acts) =
     (if name = ''disconnected'' then payload # disconnects acts else disconnects acts)"
| "disconnects (a # acts) = disconnects acts"

fun emitted :: "action list \<Rightarrow> string list" where
  "emitted [] = []"
| "emitted (Emit name payload # acts) = name # emitted acts"
| "emitted (a # acts) = emitted acts"


subsection \<open>The \<open>messages.upsert\<close> handler\<close>

text \<open>\<open>ContactHandler.get\<close>, and the contact of a message, fetched and cached when unknown.\<close>

definition contacts_get :: "environment \<Rightarrow> client_state \<Rightarrow> jsval \<Rightarrow> jsval res" where
  "contacts_get env st jid =
     andThen (endsWith ''jid'' jid ''@lid'') (\<lambda>lid.
     andThen (if lid then await (env_getPnForLid env jid) else Inr jid) (\<lambda>j.
       Inr (case contacts st j of Some c \<Rightarrow> c | None \<Rightarrow> JNull)))"

definition resolve_contact ::
  "environment \<Rightarrow> client_state \<Rightarrow> jsval \<Rightarrow> (jsval \<times> client_state) res" where
  "resolve_contact env st msg =
     andThen (get msg ''key'') (\<lambda>k.
     andThen (get k ''remoteJid'') (\<lambda>jid.
     andThen (contacts_get env st jid) (\<lambda>found.
       if truthy found then Inr (found, st)
       else andThen (await (env_contacts_normalize env msg)) (\<lambda>contact.
            andThen (get contact ''id'') (\<lambda>i.
              Inr (contact, st\<lparr>contacts := (contacts st)(i \<mapsto> contact)\<rparr>))))))"

text \<open>\<open>v == s\<close> for a string \<open>s\<close>.\<close>

definition loose_eq_string :: "runtime \<Rightarrow> jsval \<Rightarrow> string \<Rightarrow> bool" where
  "loose_eq_string rt v s =
     (case v of
        JStr t \<Rightarrow> t = s
      | JUndefined \<Rightarrow> False
      | JNull \<Rightarrow> False
      | JBool b \<Rightarrow> False
      | JNum n \<Rightarrow> False
      | JNaN \<Rightarrow> False
      | _ \<Rightarrow> ToString_of rt v = s)"

text \<open>The event the \<open>switch (type)\<close> picks.\<close>

definition event_name :: "jsval \<Rightarrow> jsval \<Rightarrow> string res" where
  "event_name type msg =
     (if strict_eq type (JStr ''append'') then Inr ''message_sent''
      else if strict_eq type (JStr ''notify'')
      then andThen (get msg ''key'') (\<lambda>k.
           andThen (get k ''fromMe'') (\<lambda>fromMe.
             Inr (if truthy fromMe then ''message_sent'' else ''message_received'')))
      else Inr ''notification'')"

text \<open>
  Normalizing, storing and emitting. The store is called only when it has a property
  \<open>setMessage\<close>, with \<open>nmsg.chatId\<close> for the chat; the call is not awaited.
\<close>

definition deliver ::
  "environment \<Rightarrow> client_state \<Rightarrow> jsval \<Rightarrow> jsval \<Rightarrow> jsval \<Rightarrow> action list res" where
  "deliver env st contact msg type =
     andThen (normalize (methods env st) (env_runtime env) contact msg (client_object st)) (\<lambda>nmsg.
     andThen (if truthy nmsg \<and> truthy (store st) \<and> truthy (optget (store st) ''setMessage'')
              then andThen (call_method (methods env st) (store st) ''setMessage''
                              [lookup nmsg ''chatId'', nmsg])
                     (\<lambda>r. Inr [StoreCall ''setMessage'' [lookup nmsg ''chatId'', nmsg]])
              else Inr []) (\<lambda>stored.
     andThen (event_name type msg) (\<lambda>name.
       Inr (stored @ [Emit name nmsg]))))"

definition upsert_error :: "jsval \<Rightarrow> jsval \<Rightarrow> action" where
  "upsert_error event e = Emit ''error'' (JObj [(''error'', e), (''event'', event)])"

text \<open>\<open>messages[0]\<close>, once its \<open>message\<close> has been read.\<close>

definition first_message :: "jsval \<Rightarrow> jsval res" where
  "first_message event =
     (if nullish event then Inl (TypeError ''Cannot destructure property messages'')
      else andThen (get (lookup event ''messages'') ''0'') (\<lambda>msg.
           andThen (get msg ''message'') (\<lambda>m. Inr msg)))"

definition on_upsert :: "environment \<Rightarrow> client_state \<Rightarrow> jsval \<Rightarrow> client_state \<times> action list" where
  "on_upsert env st event =
     (case first_message event of
        Inl e \<Rightarrow> (st, [upsert_error event e])
      | Inr msg \<Rightarrow>
          if \<not> truthy (lookup msg ''message'')
             \<or> truthy (lookup (lookup msg ''message'') ''protocolMessage'')
          then (st, [Emit ''notification'' msg])
          else (case resolve_contact env st msg of
                  Inl e \<Rightarrow> (st, [upsert_error event e])
                | Inr (contact, st') \<Rightarrow>
                    if truthy (lookup msg ''broadcast'')
                       \<or> loose_eq_string (env_runtime env)
                            (lookup (lookup msg ''key'') ''remoteJid'') ''status@broadcast''
                    then (st', [Emit ''broadcast_message'' msg])
                    else (case deliver env st' contact msg (lookup event ''type'') of
                            Inl e \<Rightarrow> (st', [upsert_error event e])
                          | Inr acts \<Rightarrow> (st', acts))))"

section \<open>Sample values\<close>

text \<open>
  A stand-in for the library: \<open>jidNormalizedUser\<close> drops the device part
  (\<open>:7\<close>) of a jid, and \<open>decryptPollVote\<close> fails the way the cipher does on a payload
  it cannot authenticate. The runtime stand-in accepts strings and arrays in
  \<open>Buffer.from\<close>.
\<close>

definition sample_lib :: baileys where
  "sample_lib =
     \<lparr>jidNormalizedUser =
        (\<lambda>v. case v of
               JStr s \<Rightarrow> JStr (takeWhile (\<lambda>c. c \<noteq> CHR '':'' \<and> c \<noteq> CHR ''@'') s
                               @ dropWhile (\<lambda>c. c \<noteq> CHR ''@'') s)
             | _ \<Rightarrow> JStr []),
      decryptPollVote =
        (\<lambda>vote params.
           Inl (JObj [(''name'', JStr ''Error''),
                      (''message'', JStr ''Unsupported state or unable to authenticate data'')])),
      restartRequired = 515, loggedOut = 401, unavailableService = 503\<rparr>"

definition sample_runtime :: runtime where
  "sample_runtime =
     \<lparr>ToNumber_of = (\<lambda>v. JNaN), Date_parse = (\<lambda>v. JNaN), ToString_of = (\<lambda>v. []),
      Buffer_from = (\<lambda>v. case v of
                            JArr xs \<Rightarrow> Inr (JArr xs)
                          | JStr s \<Rightarrow> Inr (JStr s)
                          | _ \<Rightarrow> Inl (TypeError ''The first argument must be of type string'')),
      hex_upper = (\<lambda>v. Inl (TypeError ''The first argument must be of type string'')),
      sha256_hex_upper = (\<lambda>v. Inl (TypeError ''The first argument must be of type string''))\<rparr>"

definition sample_client :: jsval where
  "sample_client =
     Client_object ''sessions/main'' (MessageStore_object ''sessions/main'')
       (JObj [(''id'', JStr ''5511999:7@s.whatsapp.net''), (''name'', JStr ''Me'')])
       (JObj [(''id'', JStr ''5511999@s.whatsapp.net''), (''name'', JStr ''Me'')])"

definition sample_contact :: jsval where
  "sample_contact =
     JObj [(''id'', JStr ''5522888@s.whatsapp.net''), (''name'', JStr ''Ana''),
           (''type'', JStr ''personal'')]"

definition sample_key :: "string \<Rightarrow> jsval" where
  "sample_key i =
     JObj [(''remoteJid'', JStr ''5522888@s.whatsapp.net''), (''fromMe'', JBool False),
           (''id'', JStr i)]"

text \<open>A text message, an edit of it, a revocation of it, a reply to it, and a poll vote.\<close>

definition text_envelope :: jsval where
  "text_envelope =
     JObj [(''key'', sample_key ''AAA''),
           (''message'', JObj [(''conversation'', JStr ''Ola!'')]),
           (''messageTimestamp'', JNum 1700000000),
           (''pushName'', JStr ''Ana'')]"

definition edit_wrapper :: jsval where
  "edit_wrapper =
     JObj [(''key'', sample_key ''EDIT1''),
           (''message'',
            JObj [(''protocolMessage'',
                   JObj [(''key'', sample_key ''AAA''), (''type'', JNum 14),
                         (''editedMessage'', JObj [(''conversation'', JStr ''Ola, Ana!'')])])]),
           (''messageTimestamp'', JNum 1700000060),
           (''pushName'', JStr ''Ana'')]"



definition reply_envelope :: jsval where
  "reply_envelope =
     JObj [(''key'', sample_key ''BBB''),
           (''message'',
            JObj [(''extendedTextMessage'',
                   JObj [(''text'', JStr ''yes''),
                         (''contextInfo'',
                          JObj [(''stanzaId'', JStr ''AAA''),
                                (''participant'', JStr ''5522888@s.whatsapp.net''),
                                (''quotedMessage'', JObj [(''conversation'', JStr ''Ola!'')])])])]),
           (''messageTimestamp'', JNum 1700000120)]"

definition vote_update :: jsval where
  "vote_update =
     JObj [(''pollCreationMessageKey'',
            JObj [(''remoteJid'', JStr ''5522888@s.whatsapp.net''),
                  (''fromMe'', JBool True), (''id'', JStr ''POLL1'')]),
           (''vote'', JObj [(''encPayload'', JStr ''p''), (''encIv'', JStr ''iv'')]),
           (''senderTimestampMs'', JNum 1700000180000)]"

definition vote_envelope :: jsval where
  "vote_envelope =
     JObj [(''key'', sample_key ''VOTE1''),
           (''message'', JObj [(''pollUpdateMessage'', vote_update)]),
           (''messageTimestamp'', JNum 1700000180)]"

text \<open>A store that holds the poll the vote refers to, as the store writes it.\<close>

definition stored_poll :: jsval where
  "stored_poll =
     JObj [(''id'', JStr ''POLL1''),
           (''type'', JStr ''poll_creation''),
           (''raw'',
            JObj [(''key'', JObj [(''remoteJid'', JStr ''5522888@s.whatsapp.net''),
                                 (''fromMe'', JBool True), (''id'', JStr ''POLL1'')]),
                  (''message'',
                   JObj [(''pollCreationMessage'',
                          JObj [(''name'', JStr ''Lunch?''),
                                (''options'', JArr [JObj [(''optionName'', JStr ''Pizza'')],
                                                   JObj [(''optionName'', JStr ''Sushi'')]]),
                                (''selectableOptionsCount'', JNum 1)]),
                         (''messageContextInfo'',
                          JObj [(''messageSecret'',
                                 JObj [(''0'', JNum 17), (''1'', JNum 42)])])])])]"

definition poll_fs :: filesystem where
  "poll_fs =
     [''sessions/main/message_store/5522888@s.whatsapp.net.json''
        \<mapsto> JsonDoc (JArr [stored_poll])]"

text \<open>The client's methods over an empty session directory, and over \<open>poll_fs\<close>.\<close>

definition sample_host :: host where
  "sample_host = client_host sample_lib sample_runtime Map.empty ''sessions/main''"

definition poll_host :: host where
  "poll_host = client_host sample_lib sample_runtime poll_fs ''sessions/main''"

text \<open>What \<open>normalize\<close> returns for the text message, the revocation and the reply.\<close>

definition text_normalized :: jsval where
  "text_normalized =
     JObj [(''id'', JStr ''AAA''),
           (''chat'', sample_contact),
           (''fromMe'', JBool False),
           (''from'', JStr ''5522888@s.whatsapp.net''),
           (''fromPushName'', JStr ''Ana''),
           (''to'', JStr ''5511999@s.whatsapp.net''),
           (''type'', JStr ''text''),
           (''body'', JStr ''Ola!''),
           (''hasMedia'', JBool False),
           (''media'', JNull),
           (''location'', JNull),
           (''contacts'', JArr []),
           (''isReply'', JBool False),
           (''quotedMessage'', JNull),
           (''isForwarded'', JBool False),
           (''forwardingScore'', JNum 0),
           (''mentions'', JArr []),
           (''isMentioningMe'', JBool False),
           (''isEdited'', JBool False),
           (''interactiveReply'', JNull),
           (''reaction'', JNull),
           (''pollUpdate'', JNull),
           (''poll'', JNull),
           (''timestamp'', JDate (Some 1700000000000)),
           (''raw'', text_envelope)]"


definition reply_normalized :: jsval where
  "reply_normalized =
     JObj [(''id'', JStr ''BBB''),
           (''chat'', sample_contact),
           (''fromMe'', JBool False),
           (''from'', JStr ''5522888@s.whatsapp.net''),
           (''fromPushName'', JStr ''Ana''),
           (''to'', JStr ''5511999@s.whatsapp.net''),
           (''type'', JStr ''text''),
           (''body'', JStr ''yes''),
           (''hasMedia'', JBool False),
           (''media'', JNull),
           (''location'', JNull),
           (''contacts'', JArr []),
           (''isReply'', JBool True),
           (''quotedMessage'', JPromise JNull []),
           (''isForwarded'', JBool False),
           (''forwardingScore'', JNum 0),
           (''mentions'', JArr []),
           (''isMentioningMe'', JBool False),
           (''isEdited'', JBool False),
           (''interactiveReply'', JNull),
           (''reaction'', JNull),
           (''pollUpdate'', JNull),
           (''poll'', JNull),
           (''timestamp'', JDate (Some 1700000120000)),
           (''raw'', reply_envelope)]"

text \<open>The error the stand-in for \<open>decryptPollVote\<close> throws.\<close>

definition decrypt_error :: jsval where
  "decrypt_error =
     JObj [(''name'', JStr ''Error''),
           (''message'', JStr ''Unsupported state or unable to authenticate data'')]"

text \<open>
  A client with the default store, an empty contact cache and no file yet, and its
  collaborators; a Boom error keeps the status code and the data of the error it wraps.
\<close>

definition sample_env :: environment where
  "sample_env =
     \<lparr>env_lib = sample_lib, env_runtime = sample_runtime,
      env_Boom =
        (\<lambda>err. JObj [(''output'',
                       JObj [(''statusCode'',
                              js_or (optpath err [''output'', ''statusCode'']) (JNum 500))]),
                      (''data'', js_or (optget err ''data'') JNull)]),
      env_toDataURL = (\<lambda>qr. Inr (JStr ''data:image/png;base64,AAAA'')),
      env_getPnForLid = (\<lambda>lid. Inr JNull),
      env_contacts_normalize = (\<lambda>msg. Inr (JPromise sample_contact [])),
      env_itsMe = Inr (JObj [(''id'', JStr ''5511999@s.whatsapp.net''), (''name'', JStr ''Me'')]),
      env_rm_error = None,
      env_other_methods = (\<lambda>name args. Inl (TypeError (name @ '' is not available'')))\<rparr>"

definition sample_state :: client_state where
  "sample_state =
     \<lparr>sessionPath = ''sessions/main'', status = ''connected'', connected = True,
      manualDisconnect = False, restartOnClose = False, isOnline = True,
      receivedPendingNotifications = True, qrCode = JNull, qrCodeAttempts = JUndefined,
      presenceSetInterval = True,
      user = JObj [(''id'', JStr ''5511999@s.whatsapp.net''), (''name'', JStr ''Me'')],
      sockUser = JObj [(''id'', JStr ''5511999:7@s.whatsapp.net''), (''name'', JStr ''Me'')],
      store = MessageStore_object ''sessions/main'',
      contacts = Map.empty, files = Map.empty\<rparr>"

definition upsert_event :: jsval where
  "upsert_event = JObj [(''messages'', JArr [text_envelope]), (''type'', JStr ''notify'')]"





text \<open>A message whose interactive part lists no button.\<close>

definition empty_buttons_message :: jsval where
  "empty_buttons_message =
     JObj [(''interactiveMessage'', JObj [(''interactiveButtons'', JArr [])])]"

section \<open>Basic facts\<close>

lemma andThen_simps [simp]:
  "andThen (Inl e) f = Inl e" "andThen (Inr v) f = f v"
  by (simp_all add: andThen_def)

lemma dec_string_small: "n < 10 \<Longrightarrow> dec_string n = [digit_char n]"
  by (subst dec_string.simps) simp

lemma dec_string_large: "\<not> n < 10 \<Longrightarrow> dec_string n = dec_string (n div 10) @ [digit_char n]"
  by (subst dec_string.simps) simp

lemma zeros_numeral: "zeros (numeral k) = CHR ''0'' # zeros (pred_numeral k)"
  by (simp add: numeral_eq_Suc)

lemmas date_eval = toISOString_def time_string_def year_string_def civil_year_def
  civil_day_def civil_month_def march_month_def day_of_year_def year_of_era_def
  day_of_era_def pad_def dec_string_small dec_string_large zeros_numeral

lemma toISOString_epoch: "toISOString 0 = ''1970-01-01T00:00:00.000Z''"
  by (simp add: date_eval)

lemma toISOString_leap_day: "toISOString 951782400000 = ''2000-02-29T00:00:00.000Z''"
  by (simp add: date_eval)


lemma get_object [simp]: "is_object m \<Longrightarrow> get m k = Inr (lookup m k)"
  by (cases m) (simp_all add: get_def)

lemma truthy_object [simp]: "is_object m \<Longrightarrow> truthy m"
  by (cases m) simp_all

subsection \<open>JSON images\<close>

lemma JSON_fixed:
  "is_json v \<Longrightarrow> JSON_value v = Some v"
  "are_json xs \<Longrightarrow> JSON_elems xs = xs"
  "props_json kvs \<Longrightarrow> JSON_props kvs = kvs"
  by (induction v and xs and kvs rule: JSON_value_JSON_elems_JSON_props.induct) auto

lemma JSON_image_is_json:
  "\<And>w. JSON_value v = Some w \<Longrightarrow> is_json w"
  "are_json (JSON_elems xs)"
  "props_json (JSON_props kvs)"
  by (induction v and xs and kvs rule: JSON_value_JSON_elems_JSON_props.induct)
     (auto split: option.splits)

lemma map_of_JSON_props:
  "map_of kvs k = Some i \<Longrightarrow> JSON_value i = Some i \<Longrightarrow> map_of (JSON_props kvs) k = Some i"
  by (induction kvs) (auto split: option.splits if_splits)

lemma lookup_JSON_props:
  "lookup (JObj kvs) k = i \<Longrightarrow> JSON_value i = Some i \<Longrightarrow> lookup (JObj (JSON_props kvs)) k = i"
  using map_of_JSON_props [of kvs k i] by (auto split: option.splits)

lemma JSON_elems_snoc:
  "are_json xs \<Longrightarrow> JSON_elems (xs @ [JObj kvs]) = xs @ [JObj (JSON_props kvs)]"
  by (induction xs) (auto simp: JSON_fixed(1))


subsection \<open>Searching the stored records by id\<close>


lemma find_first_by_id:
  "list_all is_object xs \<Longrightarrow> primitive i \<Longrightarrow> i \<noteq> JNaN \<Longrightarrow>
   find_first (\<lambda>m. andThen (get m ''id'') (\<lambda>j. Inr (strict_eq j i))) xs
     = Inr (case List.find (\<lambda>r. lookup r ''id'' = i) xs of Some r \<Rightarrow> r | None \<Rightarrow> JUndefined)"
  by (induction xs) (auto simp: strict_eq_def)

lemma find_is_object:
  "list_all is_object xs \<Longrightarrow> List.find P xs = Some r \<Longrightarrow> is_object r"
  by (induction xs) (auto split: if_splits)


lemma find_None_notin: "(List.find (\<lambda>r. f r = i) xs = None) = (i \<notin> set (map f xs))"
  by (induction xs) auto

lemma count_distinct:
  "i \<in> set (map f zs) \<Longrightarrow> distinct (map f zs) \<Longrightarrow> length (filter (\<lambda>r. f r = i) zs) = 1"
proof (induction zs)
  case Nil
  then show ?case by simp
next
  case (Cons a zs)
  show ?case
  proof (cases "f a = i")
    case True
    then have "i \<notin> f ` set zs" using Cons.prems(2) by auto
    then have "filter (\<lambda>r. f r = i) zs = []" by (auto simp: filter_empty_conv)
    then show ?thesis using True by simp
  next
    case False
    then show ?thesis using Cons by auto
  qed
qed

lemma loadMessages_written:
  "loadMessages (fs(getFilePath b c \<mapsto> JsonDoc (JArr ys))) b c = JArr ys"
  by (simp add: loadMessages_def js_or_def)

lemma loadMessages_no_file: "loadMessages Map.empty b c = JArr []"
  by (simp add: loadMessages_def)

text \<open>A record with the id is stored: the write is skipped.\<close>

lemma saveMessage_present:
  assumes ld: "loadMessages fs b c = JArr zs" and ob: "list_all is_object zs"
    and mem: "i \<in> set (map (\<lambda>r. lookup r ''id'') zs)"
    and mm: "is_object mm" "lookup mm ''id'' = i"
    and i: "primitive i" "i \<noteq> JNaN"
  shows "saveMessage fs b c mm = Inr fs"
proof -
  have "List.find (\<lambda>r. lookup r ''id'' = i) zs \<noteq> None"
    using mem find_None_notin [of "\<lambda>r. lookup r ''id''" i zs] by simp
  then obtain r where r: "List.find (\<lambda>r. lookup r ''id'' = i) zs = Some r"
    by auto
  have "is_object r" using find_is_object [OF ob r] .
  then show ?thesis
    using ld mm r find_first_by_id [OF ob i]
    by (simp add: saveMessage_def array_find_def Let_def)
qed

text \<open>No record with the id is stored: the JSON image of the message is appended.\<close>

lemma saveMessage_absent:
  assumes ld: "loadMessages fs b c = JArr xs" and ob: "list_all is_object xs"
    and json: "are_json xs"
    and new: "i \<notin> set (map (\<lambda>r. lookup r ''id'') xs)"
    and m: "lookup (JObj kvs) ''id'' = i"
    and i: "primitive i" "i \<noteq> JNaN"
  shows "saveMessage fs b c (JObj kvs)
           = Inr (fs(getFilePath b c \<mapsto> JsonDoc (JArr (xs @ [JObj (JSON_props kvs)]))))"
proof -
  have none: "List.find (\<lambda>r. lookup r ''id'' = i) xs = None"
    using new find_None_notin [of "\<lambda>r. lookup r ''id''" i xs] by simp
  show ?thesis
    using ld none m find_first_by_id [OF ob i] JSON_elems_snoc [OF json, of kvs]
    by (simp add: saveMessage_def array_find_def Let_def array_push_def saveMessages_def)
qed

section \<open>The message store\<close>

text \<open>
  C6. Appending is idempotent by message id. For a chat whose file is absent, corrupt or
  holds an array of records with pairwise different ids, and a message whose id is a
  string (or another primitive that JSON keeps): if a record with that id is stored,
  \<open>saveMessage\<close> changes nothing; after \<open>saveMessage(chatId, m)\<close> a second
  \<open>saveMessage\<close> of any message with the same id is ignored, the ids stay pairwise
  different and exactly one record carries the id.
\<close>

theorem saveMessage_idempotent_by_id:
  assumes load: "loadMessages fs b c = JArr xs"
    and objs: "list_all is_object xs"
    and json: "are_json xs"
    and dist: "distinct (map (\<lambda>r. lookup r ''id'') xs)"
    and m: "m = JObj kvs" "lookup m ''id'' = i"
    and m': "is_object m'" "lookup m' ''id'' = i"
    and i: "primitive i" "JSON_value i = Some i"
  shows "(i \<in> set (map (\<lambda>r. lookup r ''id'') xs) \<longrightarrow> saveMessage fs b c m = Inr fs)
       \<and> (\<exists>fs1 ys. saveMessage fs b c m = Inr fs1
              \<and> saveMessage fs1 b c m' = Inr fs1
              \<and> loadMessages fs1 b c = JArr ys
              \<and> distinct (map (\<lambda>r. lookup r ''id'') ys)
              \<and> length (filter (\<lambda>r. lookup r ''id'' = i) ys) = 1)"
proof -
  have nan: "i \<noteq> JNaN" using i by auto
  have mo: "is_object m" using m(1) by simp
  show ?thesis
  proof (cases "i \<in> set (map (\<lambda>r. lookup r ''id'') xs)")
    case True
    have s: "saveMessage fs b c m = Inr fs"
      using saveMessage_present [OF load objs True mo m(2) i(1) nan] .
    have s': "saveMessage fs b c m' = Inr fs"
      using saveMessage_present [OF load objs True m' i(1) nan] .
    show ?thesis using s s' load dist count_distinct [OF True dist] by auto
  next
    case False
    let ?ys = "xs @ [JObj (JSON_props kvs)]"
    let ?fs1 = "fs(getFilePath b c \<mapsto> JsonDoc (JArr ?ys))"
    have mi: "lookup (JObj kvs) ''id'' = i" using m by simp
    have s: "saveMessage fs b c m = Inr ?fs1"
      using saveMessage_absent [OF load objs json False mi i(1) nan] m(1) by simp
    have idm: "lookup (JObj (JSON_props kvs)) ''id'' = i"
      using lookup_JSON_props [OF mi i(2)] .
    have load1: "loadMessages ?fs1 b c = JArr ?ys" by (rule loadMessages_written)
    have objs1: "list_all is_object ?ys" using objs by simp
    have in1: "i \<in> set (map (\<lambda>r. lookup r ''id'') ?ys)" using idm by simp
    have s': "saveMessage ?fs1 b c m' = Inr ?fs1"
      using saveMessage_present [OF load1 objs1 in1 m' i(1) nan] .
    have dist1: "distinct (map (\<lambda>r. lookup r ''id'') ?ys)"
      using dist False idm by simp
    show ?thesis using False s s' load1 dist1 count_distinct [OF in1 dist1] by blast
  qed
qed

theorem saveMessage_idempotent_by_id_witness:
  "loadMessages Map.empty ''s/message_store'' ''5511@s.whatsapp.net'' = JArr []
   \<and> lookup sample_message ''id'' = JStr ''3EB0A1''
   \<and> lookup resent_sample ''id'' = JStr ''3EB0A1''
   \<and> (\<exists>fs1 ys.
         saveMessage Map.empty ''s/message_store'' ''5511@s.whatsapp.net'' sample_message = Inr fs1
       \<and> saveMessage fs1 ''s/message_store'' ''5511@s.whatsapp.net'' resent_sample = Inr fs1
       \<and> loadMessages fs1 ''s/message_store'' ''5511@s.whatsapp.net'' = JArr ys
       \<and> distinct (map (\<lambda>r. lookup r ''id'') ys)
       \<and> length (filter (\<lambda>r. lookup r ''id'' = JStr ''3EB0A1'') ys) = 1)"
proof -
  have l: "loadMessages Map.empty ''s/message_store'' ''5511@s.whatsapp.net'' = JArr []"
    by (rule loadMessages_no_file)
  have a: "lookup sample_message ''id'' = JStr ''3EB0A1''"
    by (simp add: sample_message_def)
  have b: "lookup resent_sample ''id'' = JStr ''3EB0A1''" "is_object resent_sample"
    by (simp_all add: resent_sample_def)
  show ?thesis
    using saveMessage_idempotent_by_id [OF l _ _ _ sample_message_def a b(2) b(1)] l a b
    by simp
qed




text \<open>
  C10. When the chat's file is missing, unreadable or not JSON, \<open>_loadMessages\<close>
  returns the empty list, \<open>getMessage\<close> returns \<open>undefined\<close> and \<open>getMessages\<close>
  returns the empty array, whatever the options; none of them throws.
\<close>

theorem corrupt_store_reads_empty:
  assumes "fs (getFilePath b c) = None \<or> fs (getFilePath b c) = Some Unreadable
           \<or> fs (getFilePath b c) = Some InvalidJson"
  shows "loadMessages fs b c = JArr []
       \<and> getMessage fs b c i = Inr JUndefined
       \<and> getMessages rt fs b c from to limit = Inr (JArr [])"
proof -
  have l: "loadMessages fs b c = JArr []"
    using assms by (auto simp: loadMessages_def)
  have g: "getMessage fs b c i = Inr JUndefined"
    by (simp add: getMessage_def l array_find_def)
  have s: "slice ''messages'' (JArr []) k = Inr (JArr [])" for k
    by (simp add: slice_def slice_from_def Let_def)
  have "getMessages rt fs b c from to limit = Inr (JArr [])"
    by (simp add: getMessages_def l array_filter_def s Let_def)
  with l g show ?thesis by simp
qed

theorem corrupt_store_reads_empty_witness:
  "corrupt_fs (getFilePath ''s/message_store'' ''a'') = Some InvalidJson
   \<and> loadMessages corrupt_fs ''s/message_store'' ''a'' = JArr []
   \<and> getMessage corrupt_fs ''s/message_store'' ''a'' (JStr ''3EB0A1'') = Inr JUndefined
   \<and> getMessages no_runtime corrupt_fs ''s/message_store'' ''a'' JUndefined JUndefined (JNum 10)
        = Inr (JArr [])"
proof -
  have h: "corrupt_fs (getFilePath ''s/message_store'' ''a'') = Some InvalidJson"
    by (simp add: corrupt_fs_def getFilePath_def)
  show ?thesis
    using h corrupt_store_reads_empty [of corrupt_fs "''s/message_store''" "''a''"] by simp
qed

section \<open>The normalizer\<close>

text \<open>
  C9. \<open>_getFriendlyType\<close> is not total: on an interactive message whose
  \<open>interactiveButtons\<close> array is empty, the first of the seven name tests reads
  \<open>interactiveButtons[0].name\<close> of \<open>undefined\<close> and throws a \<open>TypeError\<close>, where the
  claim promises a semantic type.
\<close>

theorem getFriendlyType_throws_on_empty_buttons:
  "getFriendlyType empty_buttons_message
     = Inl (TypeError ''Cannot read properties of undefined (reading name)'')"
  by (simp add: getFriendlyType_def empty_buttons_message_def has_def has_buttons_def
        first_button_name_def get_def optget_def indexed_def index_of_key_def digit_val_def)

subsection \<open>Evaluating the normalizer\<close>

lemma get_not_nullish: "\<not> nullish v \<Longrightarrow> get v k = Inr (lookup v k)"
  by (simp add: get_def)

lemma lookup_nullish: "nullish v \<Longrightarrow> lookup v k = JUndefined"
  by (cases v) simp_all

lemma truthy_not_nullish: "truthy v \<Longrightarrow> \<not> nullish v"
  by (cases v) simp_all

lemma lookup_defined_not_nullish: "lookup v k \<noteq> JUndefined \<Longrightarrow> \<not> nullish v"
  by (cases v) simp_all

lemmas sample_defs = sample_client_def Client_object_def MessageStore_object_def
  sample_contact_def sample_key_def sample_lib_def sample_runtime_def sample_host_def
  poll_host_def

lemmas js_defs = get_def optget_def has_def js_or_def strict_eq_def call_method_def
  client_host_def arg_def key_string_def await_def indexed_def index_of_key_def digit_val_def

lemmas normalizer_defs = build_normalized_def getFriendlyType_def has_buttons_def
  has_native_flow_def interactive_kinds_def first_button_name_def client_jid_def
  extractBody_def body_head_def extractContacts_def js_includes_def context_info_def
  original_type_def extractInteractiveReply_def extractReaction_def extractPollUpdate_def
  extractPollCreation_def endsWith_def ends_with_def new_Date_def time_value_def Number_def
  js_times_def TimeClip_def enrichWithTypedData_def typed_content_def first_type_key_def
  is_media_type_def mediaTypes_def quoted_envelope_def promise_of_def settle_def
  edit_envelope_def same_value_zero_def

text \<open>
  An inner call \<open>this.normalize(envelope, client)\<close> takes the client for the raw
  message; a client has no \<open>message\<close>, so the call returns \<open>null\<close>.
\<close>

lemma normalize_inner_call:
  "\<not> truthy (lookup client ''message'') \<Longrightarrow> normalize h rt env client JUndefined = Inr JNull"
  by (subst normalize.simps) simp

lemma sample_client_no_message: "\<not> truthy (lookup sample_client ''message'')"
  by (simp add: sample_defs)

lemma client_jid_sample:
  "client_jid (client_host sample_lib rt fs p) sample_client
     = Inr (JStr ''5511999@s.whatsapp.net'')"
  by (simp add: client_jid_def sample_defs js_defs)

lemma build_text:
  "build_normalized sample_host sample_runtime sample_contact text_envelope sample_client
     = Inr text_normalized"
  by (simp add: text_normalized_def text_envelope_def normalizer_defs js_defs sample_defs)


lemma normalize_text:
  "normalize sample_host sample_runtime sample_contact text_envelope sample_client
     = Inr text_normalized"
  by (subst normalize.simps)
     (simp add: build_text, simp add: text_normalized_def text_envelope_def normalizer_defs js_defs)


lemma lookup_creation_empty:
  "lookup_creation sample_host sample_client vote_update = Inr JUndefined"
  by (simp add: lookup_creation_def sample_defs vote_update_def js_defs getMessage_def
        loadMessages_def array_find_def)

lemma lookup_creation_poll:
  "lookup_creation poll_host sample_client vote_update = Inr stored_poll"
  by (simp add: lookup_creation_def sample_defs vote_update_def js_defs getMessage_def
        loadMessages_def array_find_def poll_fs_def MessageStore_def getFilePath_def
        has_id_def stored_poll_def)

lemma poll_try_poll:
  "poll_try poll_host sample_runtime vote_envelope sample_client
     (JStr ''5511999@s.whatsapp.net'') False vote_update = Inl decrypt_error"
  by (simp add: poll_try_def lookup_creation_poll)
     (simp add: stored_poll_def creation_poll_def decrypt_vote_def decrypt_error_def
        sample_defs js_defs)

lemma build_reply:
  "build_normalized sample_host sample_runtime sample_contact reply_envelope sample_client
     = Inr (set_prop reply_normalized ''quotedMessage'' JNull)"
  by (simp add: reply_normalized_def reply_envelope_def normalizer_defs js_defs sample_defs)

lemma normalize_reply:
  "normalize sample_host sample_runtime sample_contact reply_envelope sample_client
     = Inr reply_normalized"
  by (subst normalize.simps)
     (simp add: build_reply,
      simp add: normalize_inner_call reply_normalized_def reply_envelope_def normalizer_defs
        js_defs sample_defs)

text \<open>Every edit wrapper normalizes to \<open>null\<close>, whatever it wraps.\<close>

lemma normalize_edit_wrapper:
  assumes "truthy rawMessage" "truthy (lookup rawMessage ''message'')"
    and "truthy (optpath (lookup rawMessage ''message'') [''protocolMessage'', ''editedMessage''])"
    and "\<not> nullish (lookup (lookup (lookup rawMessage ''message'') ''protocolMessage'') ''key'')"
    and "\<not> truthy (lookup client ''message'')"
  shows "normalize h rt contact rawMessage client = Inr JNull"
  using assms
  by (subst normalize.simps)
     (simp add: normalize_inner_call promise_of_def settle_def get_not_nullish)

lemma extractPollUpdate_try:
  assumes key: "lookup (lookup msg ''key'') ''remoteJid'' = JStr jid"
    and cj: "client_jid h client = Inr cj"
    and pu: "pu = optget (lookup msg ''message'') ''pollUpdateMessage''"
      "truthy pu" "truthy (lookup pu ''pollCreationMessageKey'')"
  shows "extractPollUpdate h rt msg client =
           (case poll_try h rt msg client cj (ends_with jid ''@g.us'') pu of
              Inr v \<Rightarrow> Inr v
            | Inl err \<Rightarrow> poll_catch rt pu err)"
proof -
  have k: "\<not> nullish (lookup msg ''key'')"
    using key lookup_defined_not_nullish [of "lookup msg ''key''" "''remoteJid''"] by simp
  then have m: "\<not> nullish msg"
    using lookup_nullish [of msg "''key''"] by auto
  show ?thesis
    using key cj pu(2,3) unfolding pu(1)
    by (simp add: extractPollUpdate_def get_not_nullish [OF m] get_not_nullish [OF k]
          endsWith_def)
qed

text \<open>
  C1, as amended. For a poll-update envelope with a string \<open>key.remoteJid\<close>, on a
  client whose own jid resolves: when the store has no creation message the result is
  \<open>null\<close>; when the creation record has neither \<open>pollCreationMessage\<close> nor
  \<open>pollCreationMessageV3\<close>, or lacks the secret, the name or the options, the result is
  the degraded state with empty \<open>selectedOptions\<close> and the reason; when something in the
  \<open>try\<close> block (the lookup, the decryption) throws an object, the result is the degraded
  state whose \<open>error\<close> is the \<open>message\<close> of what was thrown; and nothing is thrown to
  the caller as long as what is thrown inside is not \<open>null\<close> or \<open>undefined\<close>.
\<close>

theorem extractPollUpdate_degrades:
  assumes key: "lookup (lookup msg ''key'') ''remoteJid'' = JStr jid"
    and cj: "client_jid h client = Inr cj"
    and pu: "pu = optget (lookup msg ''message'') ''pollUpdateMessage''"
      "truthy pu" "truthy (lookup pu ''pollCreationMessageKey'')"
  shows "(\<forall>c. lookup_creation h client pu = Inr c \<and> \<not> truthy c
            \<longrightarrow> extractPollUpdate h rt msg client = Inr JNull)
       \<and> (\<forall>c kvs. lookup_creation h client pu = Inr c \<and> truthy c
              \<and> lookup (lookup c ''raw'') ''message'' = JObj kvs
              \<and> \<not> truthy (lookup (JObj kvs) ''pollCreationMessage'')
              \<and> \<not> truthy (lookup (JObj kvs) ''pollCreationMessageV3'')
            \<longrightarrow> extractPollUpdate h rt msg client
                  = Inr (degraded rt pu [(''error'', JStr ''Poll creation message not found'')]))
       \<and> (\<forall>c kvs poll. lookup_creation h client pu = Inr c \<and> truthy c
              \<and> lookup (lookup c ''raw'') ''message'' = JObj kvs
              \<and> poll = js_or (lookup (JObj kvs) ''pollCreationMessage'')
                             (lookup (JObj kvs) ''pollCreationMessageV3'')
              \<and> truthy poll
              \<and> \<not> nullish (lookup (JObj kvs) ''messageContextInfo'')
              \<and> (\<not> truthy (lookup (lookup (JObj kvs) ''messageContextInfo'') ''messageSecret'')
                   \<or> \<not> truthy (lookup poll ''name'') \<or> \<not> truthy (lookup poll ''options''))
            \<longrightarrow> extractPollUpdate h rt msg client
                  = Inr (degraded rt pu [(''error'', JStr ''Incomplete poll creation data'')]))
       \<and> (\<forall>err. poll_try h rt msg client cj (ends_with jid ''@g.us'') pu = Inl err
              \<and> \<not> nullish err
            \<longrightarrow> extractPollUpdate h rt msg client
                  = Inr (degraded rt pu [(''error'', lookup err ''message''),
                                         (''code'', lookup err ''code'')]))
       \<and> ((\<forall>err. poll_try h rt msg client cj (ends_with jid ''@g.us'') pu = Inl err
               \<longrightarrow> \<not> nullish err)
            \<longrightarrow> (\<exists>v. extractPollUpdate h rt msg client = Inr v))"
proof -
  note t = extractPollUpdate_try [OF key cj pu]
  have absent: "extractPollUpdate h rt msg client = Inr JNull"
    if "lookup_creation h client pu = Inr c" "\<not> truthy c" for c
    using that by (simp add: t poll_try_def)
  have raw: "get c ''raw'' = Inr (lookup c ''raw'')
             \<and> get (lookup c ''raw'') ''message'' = Inr (JObj kvs)"
    if "truthy c" "lookup (lookup c ''raw'') ''message'' = JObj kvs" for c kvs
  proof -
    have "\<not> nullish c" using that(1) by (rule truthy_not_nullish)
    moreover have "\<not> nullish (lookup c ''raw'')"
      using that(2) lookup_defined_not_nullish [of "lookup c ''raw''" "''message''"] by simp
    ultimately show ?thesis using that(2) by (simp add: get_not_nullish)
  qed
  have nostruct: "extractPollUpdate h rt msg client
                  = Inr (degraded rt pu [(''error'', JStr ''Poll creation message not found'')])"
    if "lookup_creation h client pu = Inr c" "truthy c"
       "lookup (lookup c ''raw'') ''message'' = JObj kvs"
       "\<not> truthy (lookup (JObj kvs) ''pollCreationMessage'')"
       "\<not> truthy (lookup (JObj kvs) ''pollCreationMessageV3'')" for c kvs
    using that raw [OF that(2,3)]
    by (simp add: t poll_try_def creation_poll_def get_def js_or_def)
  have incomplete: "extractPollUpdate h rt msg client
                  = Inr (degraded rt pu [(''error'', JStr ''Incomplete poll creation data'')])"
    if "lookup_creation h client pu = Inr c" "truthy c"
       "lookup (lookup c ''raw'') ''message'' = JObj kvs"
       "poll = js_or (lookup (JObj kvs) ''pollCreationMessage'')
                             (lookup (JObj kvs) ''pollCreationMessageV3'')"
       "truthy poll"
       "\<not> nullish (lookup (JObj kvs) ''messageContextInfo'')"
       "\<not> truthy (lookup (lookup (JObj kvs) ''messageContextInfo'') ''messageSecret'')
                   \<or> \<not> truthy (lookup poll ''name'') \<or> \<not> truthy (lookup poll ''options'')"
    for c kvs poll
  proof -
    have cp: "creation_poll (JObj kvs) = Inr poll"
      using that(4) by (simp add: creation_poll_def get_def)
    show ?thesis
      using that(1,2,5,7) raw [OF that(2,3)] cp get_not_nullish [OF that(6)]
      by (auto simp add: t poll_try_def)
  qed
  have caught: "extractPollUpdate h rt msg client
                  = Inr (degraded rt pu [(''error'', lookup err ''message''),
                                         (''code'', lookup err ''code'')])"
    if "poll_try h rt msg client cj (ends_with jid ''@g.us'') pu = Inl err" "\<not> nullish err"
    for err
    using that by (simp add: t poll_catch_def get_not_nullish)
  have total: "\<exists>v. extractPollUpdate h rt msg client = Inr v"
    if "\<forall>err. poll_try h rt msg client cj (ends_with jid ''@g.us'') pu = Inl err
               \<longrightarrow> \<not> nullish err"
  proof (cases "poll_try h rt msg client cj (ends_with jid ''@g.us'') pu")
    case (Inl err)
    then show ?thesis using caught [OF Inl] that by simp
  next
    case (Inr v)
    then show ?thesis by (simp add: t)
  qed
  show ?thesis
    using absent nostruct incomplete caught total by blast
qed

text \<open>
  At the vote on the stored poll, where decryption throws: the hypotheses hold and the
  result is the degraded state carrying the cipher's message.
\<close>

theorem extractPollUpdate_degrades_witness:
  "lookup (lookup vote_envelope ''key'') ''remoteJid'' = JStr ''5522888@s.whatsapp.net''
   \<and> client_jid poll_host sample_client = Inr (JStr ''5511999@s.whatsapp.net'')
   \<and> vote_update = optget (lookup vote_envelope ''message'') ''pollUpdateMessage''
   \<and> truthy vote_update
   \<and> truthy (lookup vote_update ''pollCreationMessageKey'')
   \<and> poll_try poll_host sample_runtime vote_envelope sample_client
        (JStr ''5511999@s.whatsapp.net'') (ends_with ''5522888@s.whatsapp.net'' ''@g.us'')
        vote_update = Inl decrypt_error
   \<and> extractPollUpdate poll_host sample_runtime vote_envelope sample_client
       = Inr (degraded sample_runtime vote_update
                [(''error'', JStr ''Unsupported state or unable to authenticate data''),
                 (''code'', JUndefined)])"
proof -
  have a: "lookup (lookup vote_envelope ''key'') ''remoteJid'' = JStr ''5522888@s.whatsapp.net''"
    by (simp add: vote_envelope_def sample_key_def)
  have b: "client_jid poll_host sample_client = Inr (JStr ''5511999@s.whatsapp.net'')"
    unfolding poll_host_def by (rule client_jid_sample)
  have c: "vote_update = optget (lookup vote_envelope ''message'') ''pollUpdateMessage''"
    by (simp add: vote_envelope_def optget_def)
  have d: "truthy vote_update" "truthy (lookup vote_update ''pollCreationMessageKey'')"
    by (simp_all add: vote_update_def)
  have g: "ends_with ''5522888@s.whatsapp.net'' ''@g.us'' = False"
    by (simp add: ends_with_def)
  have e: "poll_try poll_host sample_runtime vote_envelope sample_client
        (JStr ''5511999@s.whatsapp.net'') (ends_with ''5522888@s.whatsapp.net'' ''@g.us'')
        vote_update = Inl decrypt_error"
    unfolding g by (rule poll_try_poll)
  have f: "\<not> nullish decrypt_error"
      "lookup decrypt_error ''message'' = JStr ''Unsupported state or unable to authenticate data''"
      "lookup decrypt_error ''code'' = JUndefined"
    by (simp_all add: decrypt_error_def)
  show ?thesis
    using extractPollUpdate_degrades [OF a b c d, of sample_runtime] a b c d e f by metis
qed

text \<open>
  The claim as stated fails where the creation message is absent from the store: the
  result is \<open>null\<close>, not a degraded state with an error reason.
\<close>

theorem extractPollUpdate_absent_counterexample:
  "getMessage Map.empty (MessageStore ''sessions/main'') ''5522888@s.whatsapp.net''
     (JStr ''POLL1'') = Inr JUndefined
   \<and> lookup_creation sample_host sample_client vote_update = Inr JUndefined
   \<and> extractPollUpdate sample_host sample_runtime vote_envelope sample_client = Inr JNull"
proof -
  have a: "lookup (lookup vote_envelope ''key'') ''remoteJid'' = JStr ''5522888@s.whatsapp.net''"
    by (simp add: vote_envelope_def sample_key_def)
  have b: "client_jid sample_host sample_client = Inr (JStr ''5511999@s.whatsapp.net'')"
    unfolding sample_host_def by (rule client_jid_sample)
  have c: "vote_update = optget (lookup vote_envelope ''message'') ''pollUpdateMessage''"
    by (simp add: vote_envelope_def optget_def)
  have d: "truthy vote_update" "truthy (lookup vote_update ''pollCreationMessageKey'')"
    by (simp_all add: vote_update_def)
  have "extractPollUpdate sample_host sample_runtime vote_envelope sample_client = Inr JNull"
    by (simp add: extractPollUpdate_try [OF a b c d] poll_try_def lookup_creation_empty)
  moreover have "getMessage Map.empty (MessageStore ''sessions/main'')
      ''5522888@s.whatsapp.net'' (JStr ''POLL1'') = Inr JUndefined"
    by (simp add: getMessage_def loadMessages_def array_find_def)
  ultimately show ?thesis using lookup_creation_empty by simp
qed

text \<open>
  C2. The edit branch does not return the inner content: for the edit of the text
  message, \<open>normalize\<close> returns \<open>null\<close>, so there is no result whose id is the original
  id and whose \<open>isEdited\<close> is true.
\<close>

theorem normalize_edit_returns_null:
  "truthy (optpath (lookup edit_wrapper ''message'') [''protocolMessage'', ''editedMessage''])
   \<and> lookup (lookup (lookup (lookup edit_wrapper ''message'') ''protocolMessage'') ''key'') ''id''
       = JStr ''AAA''
   \<and> normalize sample_host sample_runtime sample_contact edit_wrapper sample_client = Inr JNull"
proof -
  have "normalize sample_host sample_runtime sample_contact edit_wrapper sample_client
          = Inr JNull"
    by (rule normalize_edit_wrapper)
       (simp_all add: edit_wrapper_def sample_key_def optget_def sample_client_no_message)
  then show ?thesis by (simp add: edit_wrapper_def sample_key_def optget_def)
qed

text \<open>
  C3. For the reply, the \<open>quotedMessage\<close> field of the result is a promise (the inner
  call is not awaited), and that promise settles to \<open>null\<close>: there is no normalized
  quoted message and no chat id to compare.
\<close>

theorem normalize_reply_quotes_promise:
  "truthy (optget (context_info sample_runtime (lookup reply_envelope ''message''))
             ''quotedMessage'')
   \<and> normalize sample_host sample_runtime sample_contact reply_envelope sample_client
       = Inr reply_normalized
   \<and> lookup reply_normalized ''isReply'' = JBool True
   \<and> lookup reply_normalized ''quotedMessage'' = JPromise JNull []
   \<and> settle (lookup reply_normalized ''quotedMessage'') = Inr JNull"
  by (simp add: normalize_reply)
     (simp add: reply_normalized_def reply_envelope_def context_info_def original_type_def
        js_defs settle_def)




section \<open>The client\<close>

subsection \<open>Closing the connection\<close>

lemma disconnects_append [simp]: "disconnects (xs @ ys) = disconnects xs @ disconnects ys"
  by (induction xs rule: disconnects.induct) simp_all

lemma emitted_append [simp]: "emitted (xs @ ys) = emitted xs @ emitted ys"
  by (induction xs rule: emitted.induct) simp_all

lemma strict_eq_num [simp]: "strict_eq (JNum a) (JNum b) \<longleftrightarrow> a = b"
  by (simp add: strict_eq_def)



lemma noted_fields [simp]:
  "manualDisconnect (noted st update) = manualDisconnect st"
  "sessionPath (noted st update) = sessionPath st"
  "presenceSetInterval (noted st update) = presenceSetInterval st"
  "restartOnClose (noted st update) = restartOnClose st"
  "files (noted st update) = files st"
  by (simp_all add: noted_def)

lemma closed_fields [simp]:
  "manualDisconnect (closed st) = manualDisconnect st"
  "sessionPath (closed st) = sessionPath st"
  "restartOnClose (closed st) = restartOnClose st"
  "files (closed st) = files st"
  by (simp_all add: closed_def)

















subsection \<open>Receiving a message\<close>

lemma methods_sample: "methods sample_env sample_state = sample_host"
  by (rule ext, rule ext)
     (simp add: methods_def sample_env_def sample_state_def sample_host_def client_host_def)

lemma methods_files:
  "methods sample_env (sample_state\<lparr>contacts := c\<rparr>) = sample_host"
  by (rule ext, rule ext)
     (simp add: methods_def sample_env_def sample_state_def sample_host_def client_host_def)

lemma client_object_sample: "client_object (sample_state\<lparr>contacts := c\<rparr>) = sample_client"
  by (simp add: client_object_def sample_state_def sample_client_def)

lemma first_message_upsert: "first_message upsert_event = Inr text_envelope"
  by (simp add: first_message_def upsert_event_def text_envelope_def js_defs)

lemma resolve_upsert:
  "resolve_contact sample_env sample_state text_envelope
     = Inr (sample_contact,
            sample_state\<lparr>contacts := [JStr ''5522888@s.whatsapp.net'' \<mapsto> sample_contact]\<rparr>)"
  by (simp add: resolve_contact_def contacts_get_def text_envelope_def sample_key_def
        sample_env_def sample_state_def sample_contact_def endsWith_def ends_with_def js_defs)

lemma deliver_upsert:
  "deliver sample_env (sample_state\<lparr>contacts := c\<rparr>) sample_contact text_envelope (JStr ''notify'')
     = Inr [Emit ''message_received'' text_normalized]"
  apply (simp add: deliver_def methods_files client_object_sample)
  apply (simp add: sample_env_def normalize_text)
  apply (simp add: sample_state_def MessageStore_object_def event_name_def text_envelope_def sample_key_def text_normalized_def js_defs)
  done

lemma upsert_type: "lookup upsert_event ''type'' = JStr ''notify''"
  by (simp add: upsert_event_def)

lemma text_not_broadcast:
  "\<not> truthy (lookup text_envelope ''message'') \<or> truthy (lookup (lookup text_envelope ''message'') ''protocolMessage'') \<longleftrightarrow> False"
  "truthy (lookup text_envelope ''broadcast'')
     \<or> loose_eq_string rt (lookup (lookup text_envelope ''key'') ''remoteJid'') ''status@broadcast'' \<longleftrightarrow> False"
  by (simp_all add: text_envelope_def sample_key_def loose_eq_string_def)

lemma on_upsert_sample:
  "on_upsert sample_env sample_state upsert_event
     = (sample_state\<lparr>contacts := [JStr ''5522888@s.whatsapp.net'' \<mapsto> sample_contact]\<rparr>,
        [Emit ''message_received'' text_normalized])"
  unfolding on_upsert_def first_message_upsert upsert_type
  by (simp only: text_not_broadcast resolve_upsert deliver_upsert sum.case prod.case if_False)

text \<open>
  C5. The handler stores through \<open>this.store.setMessage\<close>, a method \<open>MessageStore\<close>
  does not have (its method is \<open>saveMessage\<close>), under the chat \<open>nmsg.chatId\<close>, a field the
  normalized message does not have (the chat id is \<open>nmsg.chat.id\<close>). With the default
  store the text message is normalized and emitted as \<open>message_received\<close>, and nothing
  is stored: a subscriber that asks the store for the message on receiving the event
  gets \<open>undefined\<close>.
\<close>

theorem upsert_leaves_store_empty:
  "on_upsert sample_env sample_state upsert_event
     = (sample_state\<lparr>contacts := [JStr ''5522888@s.whatsapp.net'' \<mapsto> sample_contact]\<rparr>,
        [Emit ''message_received'' text_normalized])
   \<and> getMessage (files (fst (on_upsert sample_env sample_state upsert_event)))
        (MessageStore ''sessions/main'') ''5522888@s.whatsapp.net'' (JStr ''AAA'') = Inr JUndefined
   \<and> lookup text_normalized ''chatId'' = JUndefined
   \<and> lookup (store sample_state) ''setMessage'' = JUndefined"
  unfolding on_upsert_sample
  by (simp add: sample_state_def getMessage_def loadMessages_no_file text_normalized_def
        MessageStore_object_def array_find_def)

text \<open>
  The text message has a \<open>message\<close> and no \<open>protocolMessage\<close>, so the handler takes it
  for a conversation message, and what it emits is a normalized message, not \<open>null\<close>.
\<close>

theorem upsert_leaves_store_empty_witness:
  "truthy (lookup text_envelope ''message'')
   \<and> lookup (lookup text_envelope ''message'') ''protocolMessage'' = JUndefined
   \<and> snd (on_upsert sample_env sample_state upsert_event)
       = [Emit ''message_received'' text_normalized]
   \<and> text_normalized \<noteq> JNull
   \<and> lookup text_normalized ''id'' = JStr ''AAA''"
  using upsert_leaves_store_empty by (simp add: text_envelope_def text_normalized_def)

end
